theory Spec2Isabelle
  imports Complex_Main
begin

section \<open>Strings and numbers\<close>

text \<open>
  A JavaScript string whose content matters (a message text, an error message) is a
  sequence of UTF-16 code units; \<open>js\<close> turns an ASCII literal into one. Identifiers that
  the code only passes around or concatenates are plain strings.
\<close>

type_synonym jsstring = "nat list"

definition js :: "string \<Rightarrow> jsstring" where
  "js s = map of_char s"

text \<open>Decimal rendering of a number, as in a template literal.\<close>

definition digit_char :: "nat \<Rightarrow> char" where
  "digit_char d = ''0123456789'' ! d"

fun string_of_nat :: "nat \<Rightarrow> string" where
  "string_of_nat n =
     (if n < 10 then [digit_char n]
      else string_of_nat (n div 10) @ [digit_char (n mod 10)])"

declare string_of_nat.simps [simp del]

text \<open>
  A JavaScript number that may come from outside the process is a double: a finite value,
  an infinity or NaN. The finite values are real numbers here. The result of an arithmetic
  operation on finite values is the exact result, unless its magnitude reaches
  \<open>2^1024 - 2^970\<close>: then it overflows to an infinity, as rounding to nearest does (\<open>fl\<close>).
  Rounding of the mantissa, underflow and the sign of zero are not modelled.
\<close>

datatype jsnum = Num real | PosInf | NegInf | NaN

definition overflow_threshold :: real where
  "overflow_threshold = 2 ^ 1024 - 2 ^ 970"

definition fl :: "real \<Rightarrow> jsnum" where
  "fl x = (if overflow_threshold \<le> x then PosInf
           else if x \<le> - overflow_threshold then NegInf
           else Num x)"

text \<open>The operators \<open>+\<close>, \<open>-\<close>, \<open>*\<close> and \<open>/\<close> of IEEE 754.\<close>

fun js_neg :: "jsnum \<Rightarrow> jsnum" where
  "js_neg (Num x) = Num (- x)"
| "js_neg PosInf = NegInf"
| "js_neg NegInf = PosInf"
| "js_neg NaN = NaN"

fun js_add :: "jsnum \<Rightarrow> jsnum \<Rightarrow> jsnum" where
  "js_add (Num x) (Num y) = fl (x + y)"
| "js_add NaN b = NaN"
| "js_add a NaN = NaN"
| "js_add PosInf NegInf = NaN"
| "js_add NegInf PosInf = NaN"
| "js_add PosInf b = PosInf"
| "js_add a PosInf = PosInf"
| "js_add NegInf b = NegInf"
| "js_add a NegInf = NegInf"

definition js_sub :: "jsnum \<Rightarrow> jsnum \<Rightarrow> jsnum" where
  "js_sub a b = js_add a (js_neg b)"

fun sign_of :: "jsnum \<Rightarrow> real" where
  "sign_of (Num x) = sgn x"
| "sign_of PosInf = 1"
| "sign_of NegInf = - 1"
| "sign_of NaN = 0"

definition inf_of_sign :: "real \<Rightarrow> jsnum" where
  "inf_of_sign s = (if 0 < s then PosInf else if s < 0 then NegInf else NaN)"

fun js_mul :: "jsnum \<Rightarrow> jsnum \<Rightarrow> jsnum" where
  "js_mul (Num x) (Num y) = fl (x * y)"
| "js_mul NaN b = NaN"
| "js_mul a NaN = NaN"
| "js_mul a b = inf_of_sign (sign_of a * sign_of b)"

fun js_div :: "jsnum \<Rightarrow> jsnum \<Rightarrow> jsnum" where
  "js_div (Num x) (Num y) = (if y = 0 then inf_of_sign (sgn x) else fl (x / y))"
| "js_div NaN b = NaN"
| "js_div a NaN = NaN"
| "js_div (Num x) b = Num 0"
| "js_div a (Num y) = inf_of_sign (sign_of a * (if y < 0 then - 1 else 1))"
| "js_div a b = NaN"

text \<open>\<open>Math.abs\<close>, \<open>Math.sign\<close>, \<open>Math.min\<close> and \<open>Math.max\<close> of two arguments.\<close>

fun Math_abs :: "jsnum \<Rightarrow> jsnum" where
  "Math_abs (Num x) = Num \<bar>x\<bar>"
| "Math_abs PosInf = PosInf"
| "Math_abs NegInf = PosInf"
| "Math_abs NaN = NaN"

fun Math_sign :: "jsnum \<Rightarrow> jsnum" where
  "Math_sign (Num x) = Num (sgn x)"
| "Math_sign PosInf = Num 1"
| "Math_sign NegInf = Num (- 1)"
| "Math_sign NaN = NaN"

fun Math_min :: "jsnum \<Rightarrow> jsnum \<Rightarrow> jsnum" where
  "Math_min (Num x) (Num y) = Num (min x y)"
| "Math_min NaN b = NaN"
| "Math_min a NaN = NaN"
| "Math_min NegInf b = NegInf"
| "Math_min a NegInf = NegInf"
| "Math_min PosInf b = b"
| "Math_min a PosInf = a"

fun Math_max :: "jsnum \<Rightarrow> jsnum \<Rightarrow> jsnum" where
  "Math_max (Num x) (Num y) = Num (max x y)"
| "Math_max NaN b = NaN"
| "Math_max a NaN = NaN"
| "Math_max PosInf b = PosInf"
| "Math_max a PosInf = PosInf"
| "Math_max NegInf b = b"
| "Math_max a NegInf = a"

text \<open>\<open>Math.pow(x, n)\<close> for an exponent that is a natural number.\<close>

fun Math_pow_int :: "jsnum \<Rightarrow> nat \<Rightarrow> jsnum" where
  "Math_pow_int a 0 = Num 1"
| "Math_pow_int (Num x) n = fl (x ^ n)"
| "Math_pow_int PosInf n = PosInf"
| "Math_pow_int NegInf n = (if even n then PosInf else NegInf)"
| "Math_pow_int NaN n = NaN"




section \<open>Error taxonomy (errors.ts)\<close>

datatype ErrorCode = INITIALIZATION | EMBEDDING | VECTOR_STORE | CACHE | ANALYSIS | RATE_LIMIT

datatype ErrorSeverity = LOW | MEDIUM | HIGH | CRITICAL

record RetryOptions =
  maxAttempts :: nat
  backoffMs :: nat

text \<open>
  A thrown value is a plain \<open>Error\<close>, a \<open>SentimentError\<close> or a value that is not an instance of
  \<open>Error\<close> (JavaScript can throw any value, for example a string); the abstract class
  carries the fields its subclasses fix in their constructors.
\<close>

datatype exn = PlainError jsstring | Sentiment sentiment_error | NonError jsstring
and sentiment_error =
  SentimentError (message: jsstring) (code: ErrorCode) (severity: ErrorSeverity)
    (retryable: bool) (retryOptions: "RetryOptions option") (cause: "exn option")

text \<open>\<open>error instanceof Error ? error : undefined\<close>, the cause handed to a constructor.\<close>

fun instanceof_Error :: "exn \<Rightarrow> bool" where
  "instanceof_Error (PlainError m) = True"
| "instanceof_Error (Sentiment e) = True"
| "instanceof_Error (NonError v) = False"

definition cause_of :: "exn \<Rightarrow> exn option" where
  "cause_of err = (if instanceof_Error err then Some err else None)"

definition shouldRetry :: "sentiment_error \<Rightarrow> bool" where
  "shouldRetry e \<longleftrightarrow> retryable e \<and> retryOptions e \<noteq> None"

definition InitializationError :: "jsstring \<Rightarrow> exn option \<Rightarrow> sentiment_error" where
  "InitializationError msg c =
     SentimentError msg INITIALIZATION HIGH True (Some \<lparr>maxAttempts = 3, backoffMs = 1000\<rparr>) c"

definition EmbeddingError :: "jsstring \<Rightarrow> exn option \<Rightarrow> sentiment_error" where
  "EmbeddingError msg c =
     SentimentError msg EMBEDDING MEDIUM True (Some \<lparr>maxAttempts = 5, backoffMs = 500\<rparr>) c"

definition VectorStoreError :: "jsstring \<Rightarrow> exn option \<Rightarrow> sentiment_error" where
  "VectorStoreError msg c =
     SentimentError msg VECTOR_STORE MEDIUM True (Some \<lparr>maxAttempts = 3, backoffMs = 1000\<rparr>) c"

definition CacheError :: "jsstring \<Rightarrow> exn option \<Rightarrow> sentiment_error" where
  "CacheError msg c =
     SentimentError msg CACHE LOW True (Some \<lparr>maxAttempts = 2, backoffMs = 200\<rparr>) c"

definition AnalysisError :: "jsstring \<Rightarrow> exn option \<Rightarrow> sentiment_error" where
  "AnalysisError msg c =
     SentimentError msg ANALYSIS MEDIUM True (Some \<lparr>maxAttempts = 3, backoffMs = 500\<rparr>) c"

definition RateLimitError :: "jsstring \<Rightarrow> nat \<Rightarrow> exn option \<Rightarrow> sentiment_error" where
  "RateLimitError msg retryAfterMs c =
     SentimentError msg RATE_LIMIT LOW True (Some \<lparr>maxAttempts = 1, backoffMs = retryAfterMs\<rparr>) c"

section \<open>Shared data of the sentiment service (sentiment.service.ts, types.ts)\<close>

text \<open>
  The score and the confidence of a strategy and the components of an embedding are real
  numbers. The scores of the vector store, and the trend and the volatility computed from
  them, are JavaScript numbers.
\<close>

datatype Category = strongly_bearish | mildly_bearish | neutral | mildly_bullish | strongly_bullish

record SentimentScore =
  score :: real
  category :: Category
  confidence :: real

record AnalysisContext =
  recentTrend :: jsnum
  volatility :: jsnum
  dominantCategory :: Category

record SentimentAnalysisResult =
  res_score :: SentimentScore
  res_context :: AnalysisContext

text \<open>
  A match of the vector store: its score is a number that the store supplies, and
  \<open>metadata?.category\<close> is kept as an optional field.
\<close>

record Match =
  m_id :: string
  m_score :: jsnum
  m_category :: "Category option"

record SentimentContext =
  ctx_userId :: string
  ctx_roomId :: string
  ctx_senderName :: string

text \<open>
  The data handed to the cache. \<open>JSON.stringify\<close> and \<open>toString\<close> are left symbolic: a
  field holds the value that the source serialises.
\<close>

record CacheData =
  cd_messageHash :: string
  cd_embedding :: "real list"
  cd_sentiment :: real
  cd_confidence :: real
  cd_context :: "Match list"
  cd_userId :: string
  cd_roomId :: string
  cd_senderName :: string

section \<open>Sentiment cache (sentiment-cache.service.ts)\<close>

text \<open>
  The table \<open>sentiment_cache\<close> is a list of rows in insertion order. A stored value is NULL,
  a number or a text. \<open>messageHash\<close> is the primary key and \<open>expiresAt\<close> a column of INTEGER
  affinity (the schema in index.ts: \<open>expiresAt INTEGER NOT NULL\<close>).
\<close>

datatype sqlval = SqlNull | SqlNum int | SqlText string

record CacheRow =
  row_messageHash :: string
  row_embedding :: "real list"
  row_sentiment :: real
  row_confidence :: real
  row_context :: "Match list"
  row_userId :: string
  row_roomId :: string
  row_senderName :: string
  row_expiresAt :: sqlval
  row_createdAt :: sqlval

text \<open>Texts are ordered byte by byte.\<close>

fun text_less :: "string \<Rightarrow> string \<Rightarrow> bool" where
  "text_less [] [] = False"
| "text_less [] (y # ys) = True"
| "text_less (x # xs) [] = False"
| "text_less (x # xs) (y # ys) =
     (if (of_char x :: nat) < of_char y then True
      else if (of_char y :: nat) < of_char x then False
      else text_less xs ys)"

text \<open>
  The comparison \<open>a > b\<close> of the database engine (SQLite) on stored values: unknown
  (\<open>None\<close>) when an operand is NULL; numbers by value; texts by \<open>text_less\<close>; a value of a
  numeric storage class is less than every text.
\<close>

fun sql_gt :: "sqlval \<Rightarrow> sqlval \<Rightarrow> bool option" where
  "sql_gt SqlNull b = None"
| "sql_gt a SqlNull = None"
| "sql_gt (SqlNum a) (SqlNum b) = Some (a > b)"
| "sql_gt (SqlNum a) (SqlText b) = Some False"
| "sql_gt (SqlText a) (SqlNum b) = Some True"
| "sql_gt (SqlText a) (SqlText b) = Some (text_less b a)"

text \<open>
  What \<open>getCachedSentiment\<close> returns for a row. The fields \<open>id\<close> and \<open>embedding\<close> of the
  returned object are left out.
\<close>

record CachedEntry =
  ce_messageHash :: string
  ce_sentiment :: real
  ce_confidence :: real
  ce_context :: "Match list"
  ce_expiresAt :: sqlval
  ce_userId :: string
  ce_roomId :: string

text \<open>
  \<open>datetime('now')\<close> yields the text \<open>YYYY-MM-DD HH:MM:SS\<close> of the current date and time.
\<close>

definition pad :: "nat \<Rightarrow> nat \<Rightarrow> string" where
  "pad w n = replicate (w - length (string_of_nat n)) (CHR ''0'') @ string_of_nat n"

definition datetime_text :: "nat \<Rightarrow> nat \<Rightarrow> nat \<Rightarrow> nat \<Rightarrow> nat \<Rightarrow> nat \<Rightarrow> string" where
  "datetime_text y mo d h mi sec =
     pad 4 y @ ''-'' @ pad 2 mo @ ''-'' @ pad 2 d @ '' '' @ pad 2 h @ '':'' @ pad 2 mi @ '':'' @ pad 2 sec"

text \<open>
  \<open>sha256\<close> is the hash function and \<open>nowText\<close> the text that \<open>datetime('now')\<close> yields. It
  is not a well-formed number, so the affinity of the column leaves it a text. The statement
  selects the rows with the hash of the message whose \<open>expiresAt\<close> is NULL or greater than
  \<open>nowText\<close>; \<open>get\<close> returns the first.
\<close>

definition select_where :: "string \<Rightarrow> string \<Rightarrow> CacheRow \<Rightarrow> bool" where
  "select_where messageHash nowText r \<longleftrightarrow>
     row_messageHash r = messageHash
     \<and> (row_expiresAt r = SqlNull \<or> sql_gt (row_expiresAt r) (SqlText nowText) = Some True)"

definition getCachedSentiment ::
  "(jsstring \<Rightarrow> string) \<Rightarrow> string \<Rightarrow> jsstring \<Rightarrow> CacheRow list \<Rightarrow> CachedEntry option" where
  "getCachedSentiment sha256 nowText msg rows =
     (let messageHash = sha256 msg
      in case filter (select_where messageHash nowText) rows of
           [] \<Rightarrow> None
         | r # rest \<Rightarrow>
             Some \<lparr> ce_messageHash = row_messageHash r, ce_sentiment = row_sentiment r,
                    ce_confidence = row_confidence r, ce_context = row_context r,
                    ce_expiresAt = row_expiresAt r, ce_userId = row_userId r,
                    ce_roomId = row_roomId r \<rparr>)"

text \<open>
  \<open>cacheSentiment\<close> inserts one row that expires 24 hours after \<open>now\<close> (milliseconds). The
  insert throws when the primary key is already present.
\<close>

definition cacheSentiment :: "nat \<Rightarrow> CacheData \<Rightarrow> CacheRow list \<Rightarrow> exn + CacheRow list" where
  "cacheSentiment now d rows =
     (let expiresAt = now + 24 * 60 * 60 * 1000;
          createdAt = now
      in if cd_messageHash d \<in> row_messageHash ` set rows
         then Inl (PlainError (js ''SqliteError: UNIQUE constraint failed''))
         else Inr (rows @
                [\<lparr> row_messageHash = cd_messageHash d, row_embedding = cd_embedding d,
                    row_sentiment = cd_sentiment d, row_confidence = cd_confidence d,
                    row_context = cd_context d, row_userId = cd_userId d,
                    row_roomId = cd_roomId d, row_senderName = cd_senderName d,
                    row_expiresAt = SqlNum (int expiresAt), row_createdAt = SqlNum (int createdAt) \<rparr>]))"

section \<open>State and effects of the sentiment service\<close>

text \<open>
  Effects are recorded in a trace, in the order in which the code performs them. The state
  of the service is its \<open>initialized\<close> flag, its observers (a \<open>Set\<close>: insertion order, no
  duplicates; an observer is identified by a number), the rows of its cache and the trace
  so far.
\<close>

datatype event =
    Sleep nat
  | OpCall
  | AnchorInit
  | EmbeddingCall jsstring
  | StrategyCall jsstring
  | VectorQuery "real list" nat
  | CacheWriteScheduled CacheData
  | Notify nat SentimentAnalysisResult

record state =
  initialized :: bool
  observers :: "nat list"
  cache :: "CacheRow list"
  trace :: "event list"

definition emit :: "event \<Rightarrow> state \<Rightarrow> state" where
  "emit e s = s \<lparr> trace := trace s @ [e] \<rparr>"

text \<open>Sequencing of steps that may throw: the first exception ends the sequence.\<close>

definition and_then ::
  "('e + 'a) \<times> 's \<Rightarrow> ('a \<Rightarrow> 's \<Rightarrow> ('e + 'b) \<times> 's) \<Rightarrow> ('e + 'b) \<times> 's" where
  "and_then m f = (case m of (Inl e, s) \<Rightarrow> (Inl e, s) | (Inr a, s) \<Rightarrow> f a s)"

section \<open>Recovery executor (error-recovery.ts)\<close>

datatype 'v mdval =
    MNum nat | MStr string | MCode ErrorCode | MSeverity ErrorSeverity | MErr exn | MResult 'v

text \<open>
  Metadata is an object: a list of fields in creation order. \<open>field\<close> reads one, with
  \<open>None\<close> for \<open>undefined\<close>; in a spread the later field wins. \<open>MResult\<close> is the value a
  \<open>result\<close> field would hold (\<open>result?: any\<close> in types.ts).
\<close>

type_synonym 'v ErrorMetadata = "(string \<times> 'v mdval) list"

definition field :: "'v ErrorMetadata \<Rightarrow> string \<Rightarrow> 'v mdval option" where
  "field md k = map_of (rev md) k"

record 'v RecoveryResult =
  success :: bool
  error :: "exn option"
  metadata :: "'v ErrorMetadata option"

text \<open>\<open>svc\<close> is the service name given to the constructor, \<open>now\<close> the reading of \<open>Date.now()\<close>.\<close>

definition createErrorMetadata ::
  "string \<Rightarrow> nat \<Rightarrow> sentiment_error \<Rightarrow> string \<Rightarrow> 'v ErrorMetadata \<Rightarrow> 'v ErrorMetadata" where
  "createErrorMetadata svc now err st additional =
     [(''timestamp'', MNum now), (''service'', MStr svc), (''operation'', MCode (code err)),
      (''status'', MStr st), (''severity'', MSeverity (severity err))] @ additional"

definition sleep :: "nat \<Rightarrow> state \<Rightarrow> state" where
  "sleep ms s = emit (Sleep ms) s"

text \<open>
  The \<open>while\<close> loop of \<open>attemptRecovery\<close>. An operation is a step on the state that returns
  a value or throws; the loop awaits it and drops the value. The backoff is computed on
  natural numbers.
\<close>

function recoveryLoop ::
  "string \<Rightarrow> nat \<Rightarrow> sentiment_error \<Rightarrow> RetryOptions \<Rightarrow> (state \<Rightarrow> (exn + 'v) \<times> state)
     \<Rightarrow> nat \<Rightarrow> state \<Rightarrow> 'v RecoveryResult \<times> state" where
  "recoveryLoop svc now err options operation currentAttempt s =
     (if currentAttempt \<le> maxAttempts options then
        (let backoff = backoffMs options * 2 ^ (currentAttempt - 1);
             s1 = sleep backoff s
         in case operation s1 of
              (Inr v, s2) \<Rightarrow>
                (\<lparr> success = True, error = None,
                   metadata = Some (createErrorMetadata svc now err ''recovered''
                                      [(''attempts'', MNum currentAttempt)]) \<rparr>, s2)
            | (Inl retryError, s2) \<Rightarrow>
                if currentAttempt + 1 > maxAttempts options
                then (\<lparr> success = False, error = Some retryError,
                        metadata = Some (createErrorMetadata svc now err ''max_attempts''
                                           [(''attempts'', MNum (currentAttempt + 1)),
                                            (''finalError'', MErr retryError)]) \<rparr>, s2)
                else recoveryLoop svc now err options operation (currentAttempt + 1) s2)
      else (\<lparr> success = False, error = Some (Sentiment err),
              metadata = Some (createErrorMetadata svc now err ''unknown'' []) \<rparr>, s))"
  by pat_completeness auto
termination
  by (relation "measure (\<lambda>(svc, now, err, options, operation, k, s). maxAttempts options + 1 - k)")
     auto

declare recoveryLoop.simps [simp del]

definition attemptRecovery ::
  "string \<Rightarrow> nat \<Rightarrow> sentiment_error \<Rightarrow> (state \<Rightarrow> (exn + 'v) \<times> state) \<Rightarrow> state
     \<Rightarrow> 'v RecoveryResult \<times> state" where
  "attemptRecovery svc now err operation s =
     (let no_retry = (\<lparr> success = False, error = Some (Sentiment err),
                        metadata = Some (createErrorMetadata svc now err ''no_retry'' []) \<rparr>, s)
      in if \<not> shouldRetry err then no_retry
         else (case retryOptions err of
                 Some options \<Rightarrow> recoveryLoop svc now err options operation 1 s
               | None \<Rightarrow> no_retry))"

text \<open>
  An operation whose outcomes are scripted: its \<open>k\<close>-th invocation since the start of the
  trace (counted from 0) returns or throws \<open>outcome k\<close>.
\<close>

definition op_calls :: "event list \<Rightarrow> nat" where
  "op_calls tr = length (filter (\<lambda>e. e = OpCall) tr)"

definition scripted :: "(nat \<Rightarrow> exn + 'v) \<Rightarrow> state \<Rightarrow> (exn + 'v) \<times> state" where
  "scripted outcome s = (outcome (op_calls (trace s)), emit OpCall s)"

text \<open>The trace of retries number \<open>i\<close> to \<open>j - 1\<close>: each is a sleep followed by the call.\<close>

definition retry_events :: "nat \<Rightarrow> nat \<Rightarrow> nat \<Rightarrow> event list" where
  "retry_events b i j = concat (map (\<lambda>k. [Sleep (b * 2 ^ (k - 1)), OpCall]) [i..<j])"

section \<open>Sentiment analysis service (sentiment.service.ts)\<close>

text \<open>
  The collaborators of the service. The outcome of a call to the embedding provider, to
  the vector store or to the anchor initialisation may depend on everything that happened
  before, so it is a function of the trace. \<open>initializeSentimentAnchors\<close> awaits its
  embedding requests together (\<open>Promise.all\<close>); it is one step here, whose outcome is
  given by \<open>anchors_out\<close>. \<open>currentStrategy\<close> is the strategy in use (\<open>setStrategy\<close> replaces
  it between calls), \<open>onSentimentUpdate ob r\<close> is the value observer \<open>ob\<close> throws on
  result \<open>r\<close>, if any, and \<open>clock\<close> is the reading of \<open>Date.now()\<close> put into metadata.
  Logging and the performance monitor are left out.
\<close>

record env =
  sha256 :: "jsstring \<Rightarrow> string"
  generateEmbedding_out :: "event list \<Rightarrow> jsstring \<Rightarrow> exn + real list"
  query_out :: "event list \<Rightarrow> real list \<Rightarrow> nat \<Rightarrow> exn + Match list"
  anchors_out :: "event list \<Rightarrow> exn option"
  currentStrategy :: "jsstring \<Rightarrow> real list option \<Rightarrow> exn + SentimentScore"
  onSentimentUpdate :: "nat \<Rightarrow> SentimentAnalysisResult \<Rightarrow> exn option"
  clock :: nat

definition generateEmbedding :: "env \<Rightarrow> jsstring \<Rightarrow> state \<Rightarrow> (exn + real list) \<times> state" where
  "generateEmbedding env txt s =
     (generateEmbedding_out env (trace s) txt, emit (EmbeddingCall txt) s)"

definition vectorStore_query ::
  "env \<Rightarrow> real list \<Rightarrow> nat \<Rightarrow> state \<Rightarrow> (exn + Match list) \<times> state" where
  "vectorStore_query env vector topK s =
     (query_out env (trace s) vector topK, emit (VectorQuery vector topK) s)"

definition initializeSentimentAnchors :: "env \<Rightarrow> state \<Rightarrow> (exn + unit) \<times> state" where
  "initializeSentimentAnchors env s =
     ((case anchors_out env (trace s) of None \<Rightarrow> Inr () | Some e \<Rightarrow> Inl e), emit AnchorInit s)"

text \<open>\<open>recovery.metadata?.result\<close>: the \<open>result\<close> field of the metadata, if there is one.\<close>

definition metadata_result :: "'v RecoveryResult \<Rightarrow> 'v option" where
  "metadata_result recovery =
     (case metadata recovery of
        None \<Rightarrow> None
      | Some md \<Rightarrow> (case field md ''result'' of Some (MResult v) \<Rightarrow> Some v | _ \<Rightarrow> None))"

definition initialize :: "env \<Rightarrow> state \<Rightarrow> (exn + unit) \<times> state" where
  "initialize env s =
     (if initialized s then (Inr (), s)
      else case initializeSentimentAnchors env s of
             (Inr u, s1) \<Rightarrow> (Inr (), s1 \<lparr> initialized := True \<rparr>)
           | (Inl err, s1) \<Rightarrow>
               (let initError = InitializationError (js ''Failed to initialize sentiment anchors'')
                                  (cause_of err);
                    (recovery, s2) = attemptRecovery ''SentimentAnalysis'' (clock env) initError
                                       (initializeSentimentAnchors env) s1
                in if \<not> success recovery then (Inl (Sentiment initError), s2)
                   else (Inr (), s2)))"

text \<open>
  The functions with retry return the value, or \<open>None\<close> for \<open>undefined\<close>.
\<close>

definition generateEmbeddingWithRetry ::
  "env \<Rightarrow> jsstring \<Rightarrow> state \<Rightarrow> (exn + real list option) \<times> state" where
  "generateEmbeddingWithRetry env txt s =
     (case generateEmbedding env txt s of
        (Inr embedding, s1) \<Rightarrow> (Inr (Some embedding), s1)
      | (Inl err, s1) \<Rightarrow>
          (let embeddingError = EmbeddingError (js ''Failed to generate embedding for text: '' @ txt)
                                  (cause_of err);
               (recovery, s2) = attemptRecovery ''SentimentAnalysis'' (clock env) embeddingError
                                  (generateEmbedding env txt) s1
           in if \<not> success recovery then (Inl (Sentiment embeddingError), s2)
              else (Inr (metadata_result recovery), s2)))"

definition queryVectorStoreWithRetry ::
  "env \<Rightarrow> real list \<Rightarrow> nat \<Rightarrow> state \<Rightarrow> (exn + Match list option) \<times> state" where
  "queryVectorStoreWithRetry env vector topK s =
     (case vectorStore_query env vector topK s of
        (Inr r, s1) \<Rightarrow> (Inr (Some r), s1)
      | (Inl err, s1) \<Rightarrow>
          (let vectorError = VectorStoreError (js ''Failed to query vector store'') (cause_of err);
               (recovery, s2) = attemptRecovery ''SentimentAnalysis'' (clock env) vectorError
                                  (vectorStore_query env vector topK) s1
           in if \<not> success recovery then (Inl (Sentiment vectorError), s2)
              else (Inr (metadata_result recovery), s2)))"

subsection \<open>Observers\<close>

definition addObserver :: "nat \<Rightarrow> state \<Rightarrow> state" where
  "addObserver ob s =
     s \<lparr> observers := (if ob \<in> set (observers s) then observers s else observers s @ [ob]) \<rparr>"

definition removeObserver :: "nat \<Rightarrow> state \<Rightarrow> state" where
  "removeObserver ob s = s \<lparr> observers := removeAll ob (observers s) \<rparr>"

text \<open>
  \<open>observers.forEach\<close>: the observers are called in insertion order; an exception thrown by
  one of them leaves the loop.
\<close>

fun notifyLoop ::
  "env \<Rightarrow> SentimentAnalysisResult \<Rightarrow> nat list \<Rightarrow> state \<Rightarrow> (exn + unit) \<times> state" where
  "notifyLoop env r [] s = (Inr (), s)"
| "notifyLoop env r (ob # rest) s =
     (let s1 = emit (Notify ob r) s
      in case onSentimentUpdate env ob r of
           Some e \<Rightarrow> (Inl e, s1)
         | None \<Rightarrow> notifyLoop env r rest s1)"

definition notifyObservers :: "env \<Rightarrow> SentimentAnalysisResult \<Rightarrow> state \<Rightarrow> (exn + unit) \<times> state" where
  "notifyObservers env r s = notifyLoop env r (observers s) s"

subsection \<open>Categories and context\<close>


text \<open>\<open>xs.map((x, i) => f(x, i))\<close>.\<close>

definition mapi :: "('a \<Rightarrow> nat \<Rightarrow> 'b) \<Rightarrow> 'a list \<Rightarrow> 'b list" where
  "mapi f xs = map (\<lambda>i. f (xs ! i) i) [0..<length xs]"

text \<open>
  \<open>recency_weight b i n\<close> is \<open>Math.pow(b, i / n)\<close> for an index \<open>i\<close> and a length \<open>n\<close>. The scores
  are JavaScript numbers: a score that is missing or NaN, or a difference that overflows,
  makes its way through the arithmetic as the language defines.
\<close>

definition recency_weight :: "real \<Rightarrow> nat \<Rightarrow> nat \<Rightarrow> jsnum" where
  "recency_weight b i n = fl (b powr (real i / real n))"

definition calculateVolatility :: "jsnum list \<Rightarrow> jsnum" where
  "calculateVolatility scores =
     (if length scores < 2 then Num 0
      else (let differences = mapi (\<lambda>sc i. Math_abs (js_sub sc (scores ! i))) (drop 1 scores);
                amplifiedDiffs = map (\<lambda>diff. Math_pow_int diff 3) differences;
                weightedDiffs = mapi (\<lambda>diff i. js_mul diff (recency_weight 4 i (length amplifiedDiffs)))
                                  amplifiedDiffs;
                vol = js_div (foldl (\<lambda>sum diff. js_add sum diff) (Num 0) weightedDiffs)
                        (Num (real (length weightedDiffs)))
            in Math_min (Num 1) (js_mul vol (Num 8))))"

definition calculateTrend :: "jsnum list \<Rightarrow> jsnum" where
  "calculateTrend scores =
     (if length scores < 2 then Num 0
      else (let changes = mapi (\<lambda>sc i. js_sub sc (scores ! i)) (drop 1 scores);
                amplifiedChanges = map (\<lambda>change. js_mul (Math_pow_int (Math_abs change) 2)
                                                     (Math_sign change)) changes;
                weightedChanges = mapi (\<lambda>change i. js_mul change (recency_weight 3 i (length changes)))
                                    amplifiedChanges;
                trend = js_div (foldl (\<lambda>sum change. js_add sum change) (Num 0) weightedChanges)
                          (Num (real (length weightedChanges)))
            in Math_min (Num 1) (Math_max (Num (- 1)) (js_mul trend (Num 6)))))"



text \<open>
  \<open>getDominantCategory\<close>: the categories of the matches are counted in an object (keys in
  order of first occurrence); the reduction keeps the entry seen so far only when its
  count is strictly greater.
\<close>

definition count_category :: "(Category \<times> nat) list \<Rightarrow> Category \<Rightarrow> (Category \<times> nat) list" where
  "count_category acc cur =
     (case map_of acc cur of
        None \<Rightarrow> acc @ [(cur, 1)]
      | Some n \<Rightarrow> map (\<lambda>p. if fst p = cur then (fst p, snd p + 1) else p) acc)"

definition getDominantCategory :: "Match list \<Rightarrow> Category \<Rightarrow> Category" where
  "getDominantCategory ms defaultCategory =
     (let categories = List.map_filter m_category ms
      in if length categories = 0 then defaultCategory
         else (case foldl count_category [] categories of
                 [] \<Rightarrow> defaultCategory
               | e # es \<Rightarrow> fst (foldl (\<lambda>a b. if snd a > snd b then a else b) e es)))"

subsection \<open>The public entry point\<close>

definition strategy_analyze ::
  "env \<Rightarrow> jsstring \<Rightarrow> real list option \<Rightarrow> state \<Rightarrow> (exn + SentimentScore) \<times> state" where
  "strategy_analyze env txt embedding s =
     (currentStrategy env txt embedding, emit (StrategyCall txt) s)"

text \<open>\<open>Array.from(undefined)\<close> and \<open>undefined.matches\<close> throw a \<open>TypeError\<close>.\<close>

definition defined :: "'a option \<Rightarrow> exn + 'a" where
  "defined v = (case v of None \<Rightarrow> Inl (PlainError (js ''TypeError'')) | Some x \<Rightarrow> Inr x)"

definition senderName_or_Unknown :: "string \<Rightarrow> string" where
  "senderName_or_Unknown n = (if n = [] then ''Unknown'' else n)"

text \<open>
  The \<open>try\<close> block of \<open>analyzeSentiment\<close> in two parts. \<open>analyzeSentiment_compute\<close> is the block
  up to the assembled result: initialisation, embedding, strategy, vector query, scheduling
  of the cache write (it is handed to \<open>setImmediate\<close>: scheduled, not run) and the context.
  \<open>analyzeSentiment_try\<close> then notifies the observers and returns the result. The private
  method \<open>createAnalysisCommand\<close> is never called and is not part of this function.
\<close>

definition analyzeSentiment_compute ::
  "env \<Rightarrow> jsstring \<Rightarrow> SentimentContext \<Rightarrow> state \<Rightarrow> (exn + SentimentAnalysisResult) \<times> state" where
  "analyzeSentiment_compute env txt context s0 =
     and_then (if \<not> initialized s0 then initialize env s0 else (Inr (), s0)) (\<lambda>u s.
     and_then (generateEmbeddingWithRetry env txt s) (\<lambda>embedding s.
     and_then (strategy_analyze env txt embedding s) (\<lambda>sentimentScore s.
     and_then (defined embedding, s) (\<lambda>vector s.
     and_then (queryVectorStoreWithRetry env vector 5 s) (\<lambda>similar s.
     and_then (defined similar, s) (\<lambda>similar_matches s.
       (let cacheData =
              \<lparr> cd_messageHash = sha256 env txt, cd_embedding = vector,
                cd_sentiment = score sentimentScore, cd_confidence = confidence sentimentScore,
                cd_context = similar_matches, cd_userId = ctx_userId context,
                cd_roomId = ctx_roomId context,
                cd_senderName = senderName_or_Unknown (ctx_senderName context) \<rparr>;
            s1 = emit (CacheWriteScheduled cacheData) s;
            result =
              \<lparr> res_score = sentimentScore,
                res_context =
                  \<lparr> recentTrend = calculateTrend (map m_score similar_matches),
                    volatility = calculateVolatility (map m_score similar_matches),
                    dominantCategory =
                      getDominantCategory similar_matches (category sentimentScore) \<rparr> \<rparr>
        in (Inr result, s1))))))))"

definition analyzeSentiment_try ::
  "env \<Rightarrow> jsstring \<Rightarrow> SentimentContext \<Rightarrow> state \<Rightarrow> (exn + SentimentAnalysisResult) \<times> state" where
  "analyzeSentiment_try env txt context s0 =
     and_then (analyzeSentiment_compute env txt context s0) (\<lambda>result s1.
     and_then (notifyObservers env result s1) (\<lambda>u s. (Inr result, s)))"

text \<open>
  The \<open>catch\<close> block wraps whatever was thrown into an \<open>AnalysisError\<close>; the thrown value is
  its cause when it is an instance of \<open>Error\<close>.
\<close>

definition analyzeSentiment ::
  "env \<Rightarrow> jsstring \<Rightarrow> SentimentContext \<Rightarrow> state \<Rightarrow> (exn + SentimentAnalysisResult) \<times> state" where
  "analyzeSentiment env txt context s =
     (case analyzeSentiment_try env txt context s of
        (Inr r, s') \<Rightarrow> (Inr r, s')
      | (Inl err, s') \<Rightarrow>
          (Inl (Sentiment (AnalysisError (js ''Failed to analyze sentiment'') (cause_of err))), s'))"

section \<open>Sentiment scoring engine (sentiment.service.ts)\<close>



subsection \<open>String operations\<close>


text \<open>\<open>text.split(c)\<close> for a separator of one code unit.\<close>

fun js_split :: "nat \<Rightarrow> jsstring \<Rightarrow> jsstring list" where
  "js_split c [] = [[]]"
| "js_split c (x # xs) =
     (if x = c then [] # js_split c xs
      else (case js_split c xs of
              [] \<Rightarrow> [[x]]
            | w # ws \<Rightarrow> (x # w) # ws))"

text \<open>
  The number of matches of a global regular expression that is an alternation of literal
  strings: at each position the first alternative that matches is taken and consumed.
  (The patterns used contain no surrogate, so matching by code units and by code points
  agree.)
\<close>

function regex_count :: "jsstring list \<Rightarrow> jsstring \<Rightarrow> nat" where
  "regex_count alts [] = 0"
| "regex_count alts (x # xs) =
     (case find (\<lambda>p. p \<noteq> [] \<and> take (length p) (x # xs) = p) alts of
        Some p \<Rightarrow> 1 + regex_count alts (drop (length p) (x # xs))
      | None \<Rightarrow> regex_count alts xs)"
  by pat_completeness auto
termination
proof (relation "measure (\<lambda>(alts, t). length t)")
  show "wf (measure (\<lambda>(alts, t). length t))" by simp
next
  fix alts :: "jsstring list" and x xs p
  assume "find (\<lambda>p. p \<noteq> [] \<and> take (length p) (x # xs) = p) alts = Some p"
  then have "p \<noteq> []" by (auto simp: find_Some_iff)
  then show "((alts, drop (length p) (x # xs)), (alts, x # xs)) \<in> measure (\<lambda>(alts, t). length t)"
    by (cases p) auto
next
  fix alts :: "jsstring list" and x xs
  show "((alts, xs), (alts, x # xs)) \<in> measure (\<lambda>(alts, t). length t)" by simp
qed

text \<open>
  \<open>/(.)\1{3,}/\<close>: four equal code units in a row, none of them a line terminator.
\<close>

fun has_repeated_chars :: "jsstring \<Rightarrow> bool" where
  "has_repeated_chars (a # b # c # d # rest) =
     ((a = b \<and> b = c \<and> c = d \<and> a \<notin> {0x0A, 0x0D, 0x2028, 0x2029})
      \<or> has_repeated_chars (b # c # d # rest))"
| "has_repeated_chars t = False"

text \<open>
  \<open>/[...]/u.test(text)\<close> for a class of code points of the Basic Multilingual Plane, none of
  them a surrogate: some code unit of the text is in the class.
\<close>

definition regex_class_test :: "nat list \<Rightarrow> jsstring \<Rightarrow> bool" where
  "regex_class_test cls txt = (find (\<lambda>u. u \<in> set cls) txt \<noteq> None)"



definition ascii_upper :: "jsstring \<Rightarrow> jsstring" where
  "ascii_upper t = map (\<lambda>u. if 97 \<le> u \<and> u \<le> 122 then u - 32 else u) t"

subsection \<open>Emphasis multiplier, score and default strategy\<close>

text \<open>
  \<open>toLowerCase\<close> and \<open>toUpperCase\<close> are the case conversions of the JavaScript runtime; the
  scoring functions take them as arguments. \<open>toUpperCase\<close> is applied to the text and its
  words only, \<open>toLowerCase\<close> to the text and to the anchors; on an ASCII text they are
  \<open>lower_case\<close> and \<open>ascii_upper\<close>.
\<close>

definition capsWords :: "(jsstring \<Rightarrow> jsstring) \<Rightarrow> jsstring \<Rightarrow> jsstring list" where
  "capsWords toUpperCase txt =
     filter (\<lambda>word. length word > 2 \<and> word = toUpperCase word) (js_split 32 txt)"

definition calculateEmphasisMultiplier :: "(jsstring \<Rightarrow> jsstring) \<Rightarrow> jsstring \<Rightarrow> real" where
  "calculateEmphasisMultiplier toUpperCase txt =
     (let m0 = 1;
          rocketCount = regex_count [[0xF8FF, 0xFC, 0xF6, 0xC4]] txt;
          m1 = (if rocketCount \<ge> 3 then m0 * 2.5 else if rocketCount > 0 then m0 * 1.5 else m0);
          m2 = (if regex_count [[0xF8FF, 0xFC, 0xED, 0xE9], [0xF8FF, 0xFC, 0xF4, 0xE5]] txt > 0
                then m1 * 2.0 else m1);
          m3 = (if regex_count [[0xF8FF, 0xFC, 0xEE, 0x2022], [0xF8FF, 0xFC, 0xED, 0xD8],
                               [0x201A, 0x2260, 0xEA]] txt \<ge> 2
                then m2 * 2.0 else m2);
          m4 = (if regex_count [[0xF8FF, 0xFC, 0xED, 0xC4], [0x201A, 0xF6, 0x221E, 0xD4, 0x220F, 0xE8],
                               [0xF8FF, 0xFC, 0xA7, 0xB0], [0xF8FF, 0xFC, 0xEC, 0xE2]] txt > 0
                then m3 * 1.8 else m3);
          caps = capsWords toUpperCase txt;
          m5 = (if length caps \<ge> 2 then m4 * 2.0 else if length caps = 1 then m4 * 1.5 else m4);
          m6 = (if has_repeated_chars txt then m5 * 1.5 else m5);
          exclamationCount = regex_count [[33]] txt;
          m7 = (if exclamationCount \<ge> 3 then m6 * 1.8 else if exclamationCount > 0 then m6 * 1.3
                else m6);
          m8 = (if length caps \<ge> 2 \<and> exclamationCount \<ge> 3 then m7 * 1.5 else m7)
      in m8)"







definition hasPositiveEmojis :: "jsstring \<Rightarrow> bool" where
  "hasPositiveEmojis txt \<longleftrightarrow>
     regex_class_test [0xF8FF, 0xFC, 0xF6, 0xC4, 0xF8FF, 0xFC, 0xED, 0xE9, 0xF8FF, 0xFC, 0xEE, 0x2022,
                       0xF8FF, 0xFC, 0xED, 0x2122] txt"







section \<open>Message window manager (message-window.ts)\<close>

text \<open>
  Times are milliseconds since the epoch, as \<open>Date.now()\<close> returns them: natural numbers.
  Every operation that reads the clock takes the reading as its argument \<open>now\<close>.
\<close>

datatype WindowStatus = Collecting | Processing | Completed

record TelegramData =
  peerId :: string
  messageId :: nat

record MessageEntry =
  msg_text :: string
  timestamp :: nat
  userId :: string
  telegramData :: "TelegramData option"

record MessageInput =
  in_text :: string
  in_userId :: string
  in_chatId :: string
  in_timestamp :: "nat option"
  in_telegramData :: "TelegramData option"

record MessageWindow =
  windowId :: string
  startTime :: nat
  endTime :: nat
  chatId :: string
  messages :: "MessageEntry list"
  status :: WindowStatus

text \<open>
  \<open>activeWindows\<close> is a JavaScript \<open>Map\<close>: iteration follows insertion order, \<open>set\<close> on a
  key that is present replaces the value where it stands, \<open>set\<close> on a new key appends.
\<close>

type_synonym WindowMap = "(string \<times> MessageWindow) list"

definition WINDOW_SIZE_MS :: nat where "WINDOW_SIZE_MS = 30000"
definition MIN_MESSAGES :: nat where "MIN_MESSAGES = 2"
definition MAX_MESSAGES :: nat where "MAX_MESSAGES = 5"

fun map_set :: "WindowMap \<Rightarrow> string \<Rightarrow> MessageWindow \<Rightarrow> WindowMap" where
  "map_set [] k v = [(k, v)]"
| "map_set ((k', v') # rest) k v =
     (if k' = k then (k, v) # rest else (k', v') # map_set rest k v)"

definition getWindowId :: "string \<Rightarrow> nat \<Rightarrow> string" where
  "getWindowId cid ts =
     (let windowStartTime = ts - (ts mod WINDOW_SIZE_MS)
      in cid @ ''_'' @ string_of_nat windowStartTime)"

text \<open>\<open>message.timestamp || now\<close>: an absent timestamp and the timestamp 0 both give \<open>now\<close>.\<close>

definition timestamp_or :: "nat option \<Rightarrow> nat \<Rightarrow> nat" where
  "timestamp_or t now = (case t of None \<Rightarrow> now | Some v \<Rightarrow> if v = 0 then now else v)"

definition entry_of :: "MessageInput \<Rightarrow> nat \<Rightarrow> MessageEntry" where
  "entry_of msg now =
     \<lparr> msg_text = in_text msg,
       timestamp = timestamp_or (in_timestamp msg) now,
       userId = in_userId msg,
       telegramData = in_telegramData msg \<rparr>"

text \<open>
  \<open>addMessage\<close> returns the window that received the message and the updated map.
  A window found (or just created) for the bucket is extended while it is collecting;
  otherwise an overflow window is stored under \<open>windowId_overflow\<close>.
\<close>

definition addMessage :: "nat \<Rightarrow> MessageInput \<Rightarrow> WindowMap \<Rightarrow> MessageWindow \<times> WindowMap" where
  "addMessage now msg activeWindows =
     (let wid = getWindowId (in_chatId msg) now;
          (window, aw1) =
            (case map_of activeWindows wid of
               Some w \<Rightarrow> (w, activeWindows)
             | None \<Rightarrow>
                 (let w = \<lparr> windowId = wid, startTime = now, endTime = now + WINDOW_SIZE_MS,
                             chatId = in_chatId msg, messages = [], status = Collecting \<rparr>
                  in (w, map_set activeWindows wid w)))
      in if status window = Collecting
         then (let w' = window \<lparr> messages := messages window @ [entry_of msg now] \<rparr>
               in (w', map_set aw1 wid w'))
         else (let newWindow =
                     \<lparr> windowId = wid @ ''_overflow'', startTime = now,
                       endTime = now + WINDOW_SIZE_MS, chatId = in_chatId msg,
                       messages = [entry_of msg now], status = Collecting \<rparr>
               in (newWindow, map_set aw1 (windowId newWindow) newWindow)))"

text \<open>
  \<open>getReadyWindows\<close>: one pass over the map in insertion order. A collecting window is
  marked processing and pushed to the result when its time is up and it holds the minimum
  number of messages, or when it holds the maximum number of messages.
\<close>

fun getReadyWindows :: "nat \<Rightarrow> WindowMap \<Rightarrow> MessageWindow list \<times> WindowMap" where
  "getReadyWindows now [] = ([], [])"
| "getReadyWindows now ((wid, window) # rest) =
     (let (readyRest, rest') = getReadyWindows now rest
      in if status window \<noteq> Collecting then (readyRest, (wid, window) # rest')
         else (let isTimeUp = (now \<ge> endTime window);
                   hasMinMessages = (length (messages window) \<ge> MIN_MESSAGES);
                   hasMaxMessages = (length (messages window) \<ge> MAX_MESSAGES)
               in if (isTimeUp \<and> hasMinMessages) \<or> hasMaxMessages
                  then (window \<lparr> status := Processing \<rparr> # readyRest,
                        (wid, window \<lparr> status := Processing \<rparr>) # rest')
                  else (readyRest, (wid, window) # rest')))"

definition markWindowComplete :: "string \<Rightarrow> WindowMap \<Rightarrow> WindowMap" where
  "markWindowComplete wid activeWindows =
     (case map_of activeWindows wid of
        Some w \<Rightarrow> map_set activeWindows wid (w \<lparr> status := Completed \<rparr>)
      | None \<Rightarrow> activeWindows)"

definition cleanup_windows :: "nat \<Rightarrow> WindowMap \<Rightarrow> WindowMap" where
  "cleanup_windows now activeWindows =
     filter (\<lambda>(wid, w). \<not> (status w = Completed \<or> int now - int (startTime w) > int (WINDOW_SIZE_MS * 2)))
       activeWindows"

text \<open>Every message text held in some managed window.\<close>

definition managed_texts :: "WindowMap \<Rightarrow> string set" where
  "managed_texts activeWindows = (\<Union>(wid, w) \<in> set activeWindows. msg_text ` set (messages w))"

text \<open>Keys are unique and each window is stored under its own identifier.\<close>

definition wf_windows :: "WindowMap \<Rightarrow> bool" where
  "wf_windows activeWindows \<longleftrightarrow>
     distinct (map fst activeWindows) \<and> (\<forall>(wid, w) \<in> set activeWindows. windowId w = wid)"

subsection \<open>Concrete window scenarios\<close>

definition mk_input :: "string \<Rightarrow> MessageInput" where
  "mk_input t = \<lparr> in_text = t, in_userId = ''u'', in_chatId = ''c'',
                     in_timestamp = None, in_telegramData = None \<rparr>"

text \<open>
  Five messages arrive for chat \<open>c\<close> at time 0; a sweep at time 0 then finds the window
  at its maximum and marks it processing.
\<close>

definition full_bucket :: WindowMap where
  "full_bucket = snd (getReadyWindows 0
      (foldl (\<lambda>aw m. snd (addMessage 0 m aw)) []
         (map mk_input [''m1'', ''m2'', ''m3'', ''m4'', ''m5''])))"

definition two_msg_window :: MessageWindow where
  "two_msg_window =
     \<lparr> windowId = ''c_0'', startTime = 0, endTime = 30000, chatId = ''c'',
       messages = [entry_of (mk_input ''m1'') 0, entry_of (mk_input ''m2'') 0],
       status = Collecting \<rparr>"

text \<open>Summary of a map: identifier, status and message texts of every window, in order.\<close>

definition window_summary :: "WindowMap \<Rightarrow> (string \<times> WindowStatus \<times> string list) list" where
  "window_summary aw = map (\<lambda>p. (fst p, status (snd p), map msg_text (messages (snd p)))) aw"

text \<open>The readiness condition of a sweep at time \<open>now\<close>, used to describe its result.\<close>

definition ready_cond :: "nat \<Rightarrow> MessageWindow \<Rightarrow> bool" where
  "ready_cond now w \<longleftrightarrow> status w = Collecting \<and>
     (5 \<le> length (messages w) \<or> (endTime w \<le> now \<and> 2 \<le> length (messages w)))"

subsection \<open>Concrete recovery scenarios\<close>

text \<open>
  A fresh service, an operation that throws twice and then returns, and one that always
  throws.
\<close>

definition s_init :: state where
  "s_init = \<lparr> initialized = False, observers = [], cache = [], trace = [] \<rparr>"

definition fails_twice :: "nat \<Rightarrow> exn + unit" where
  "fails_twice k = (if k < 2 then Inl (PlainError (js ''unavailable'')) else Inr ())"

definition always_fails :: "nat \<Rightarrow> exn + unit" where
  "always_fails k = Inl (PlainError (js (''failure '' @ string_of_nat k)))"

subsection \<open>Concrete service scenarios\<close>

text \<open>
  A provider whose first embedding call fails and a vector store whose first query fails;
  the later calls succeed.
\<close>

definition bullish_half :: SentimentScore where
  "bullish_half = \<lparr> score = 0.5, category = strongly_bullish, confidence = 0.5 \<rparr>"

definition env_flaky :: env where
  "env_flaky =
     \<lparr> sha256 = (\<lambda>t. ''hash''),
       generateEmbedding_out = (\<lambda>tr t. if tr = [] then Inl (PlainError (js ''timeout'')) else Inr [0.25]),
       query_out = (\<lambda>tr v k. if VectorQuery v k \<in> set tr then Inr [] else Inl (PlainError (js ''unavailable''))),
       anchors_out = (\<lambda>tr. None),
       currentStrategy = (\<lambda>t e. Inr bullish_half),
       onSentimentUpdate = (\<lambda>ob r. None),
       clock = 0 \<rparr>"

text \<open>
  A service whose collaborators always succeed, one whose first anchor initialisation
  fails, one whose observer 1 throws an \<open>Error\<close> and one whose observer 1 throws a string.
\<close>

definition env_quiet :: env where
  "env_quiet =
     \<lparr> sha256 = (\<lambda>t. ''hash''),
       generateEmbedding_out = (\<lambda>tr t. Inr [0.25]),
       query_out = (\<lambda>tr v k. Inr []),
       anchors_out = (\<lambda>tr. None),
       currentStrategy = (\<lambda>t e. Inr bullish_half),
       onSentimentUpdate = (\<lambda>ob r. None),
       clock = 0 \<rparr>"

definition env_anchor_retry :: env where
  "env_anchor_retry =
     env_quiet \<lparr> anchors_out := (\<lambda>tr. if AnchorInit \<in> set tr then None
                            else Some (PlainError (js ''provider unavailable''))) \<rparr>"

definition env_obs :: env where
  "env_obs =
     env_quiet \<lparr> onSentimentUpdate :=
       (\<lambda>ob r. if ob = 1 then Some (PlainError (js ''observer failed'')) else None) \<rparr>"

definition env_obs_string :: env where
  "env_obs_string =
     env_quiet \<lparr> onSentimentUpdate :=
       (\<lambda>ob r. if ob = 1 then Some (NonError (js ''observer failed'')) else None) \<rparr>"

definition s_ready :: state where
  "s_ready = s_init \<lparr> initialized := True \<rparr>"

definition s_obs12 :: state where
  "s_obs12 = addObserver 2 (addObserver 1 s_ready)"

definition ctx_alice :: SentimentContext where
  "ctx_alice = \<lparr> ctx_userId = ''u1'', ctx_roomId = ''r1'', ctx_senderName = ''alice'' \<rparr>"

definition fresh_result :: SentimentAnalysisResult where
  "fresh_result =
     \<lparr> res_score = bullish_half,
       res_context = \<lparr> recentTrend = Num 0, volatility = Num 0,
                       dominantCategory = strongly_bullish \<rparr> \<rparr>"

definition gm_cache_data :: "string \<Rightarrow> CacheData" where
  "gm_cache_data h =
     \<lparr> cd_messageHash = h, cd_embedding = [0.25], cd_sentiment = 0.5,
       cd_confidence = 0.5, cd_context = [], cd_userId = ''u1'', cd_roomId = ''r1'',
       cd_senderName = ''alice'' \<rparr>"

text \<open>
  A cache row for the text \<open>gm\<close> (hash \<open>h\<close>) whose expiry is a datetime text, the
  representation the query compares with; it is not expired at \<open>2024-02-20 12:00:00\<close>.
\<close>

definition gm_row :: "string \<Rightarrow> CacheRow" where
  "gm_row h =
     \<lparr> row_messageHash = h, row_embedding = [0.5], row_sentiment = 0.9,
       row_confidence = 0.8, row_context = [], row_userId = ''u2'', row_roomId = ''r1'',
       row_senderName = ''bob'', row_expiresAt = SqlText ''2999-12-31 23:59:59'',
       row_createdAt = SqlText ''2024-02-20 11:00:00'' \<rparr>"

text \<open>The observers called by one notification: all up to and including the first that throws.\<close>

fun upto_first_throw :: "env \<Rightarrow> SentimentAnalysisResult \<Rightarrow> nat list \<Rightarrow> nat list" where
  "upto_first_throw env r [] = []"
| "upto_first_throw env r (ob # rest) =
     (case onSentimentUpdate env ob r of
        Some e \<Rightarrow> [ob]
      | None \<Rightarrow> ob # upto_first_throw env r rest)"

text \<open>The trace of \<open>s'\<close> continues the trace of \<open>s\<close>.\<close>

definition extends :: "state \<Rightarrow> state \<Rightarrow> bool" where
  "extends s s' \<longleftrightarrow> (\<exists>rest. trace s' = trace s @ rest)"

definition s_cached :: "string \<Rightarrow> state" where
  "s_cached h = s_ready \<lparr> cache := [gm_row h] \<rparr>"

section \<open>Properties of the recovery executor\<close>

text \<open>Every declared policy is retryable and allows at least one attempt.\<close>

lemma declared_policies:
  "shouldRetry (InitializationError msg c) \<and> retryOptions (InitializationError msg c) = Some \<lparr>maxAttempts = 3, backoffMs = 1000\<rparr>"
  "shouldRetry (EmbeddingError msg c) \<and> retryOptions (EmbeddingError msg c) = Some \<lparr>maxAttempts = 5, backoffMs = 500\<rparr>"
  "shouldRetry (VectorStoreError msg c) \<and> retryOptions (VectorStoreError msg c) = Some \<lparr>maxAttempts = 3, backoffMs = 1000\<rparr>"
  "shouldRetry (CacheError msg c) \<and> retryOptions (CacheError msg c) = Some \<lparr>maxAttempts = 2, backoffMs = 200\<rparr>"
  "shouldRetry (AnalysisError msg c) \<and> retryOptions (AnalysisError msg c) = Some \<lparr>maxAttempts = 3, backoffMs = 500\<rparr>"
  "shouldRetry (RateLimitError msg ms c) \<and> retryOptions (RateLimitError msg ms c) = Some \<lparr>maxAttempts = 1, backoffMs = ms\<rparr>"
  by (simp_all add: shouldRetry_def InitializationError_def EmbeddingError_def VectorStoreError_def
      CacheError_def AnalysisError_def RateLimitError_def)

lemma op_calls_step: "op_calls (trace (emit OpCall (sleep ms s))) = Suc (op_calls (trace s))"
  by (simp add: op_calls_def emit_def sleep_def)

lemma retry_events_step:
  "i < j \<Longrightarrow> retry_events b i j = [Sleep (b * 2 ^ (i - 1)), OpCall] @ retry_events b (Suc i) j"
  by (simp add: retry_events_def upt_conv_Cons)

lemma retry_events_empty: "retry_events b i i = []"
  by (simp add: retry_events_def)

lemma trace_step:
  "trace (emit OpCall (sleep ms s)) = trace s @ [Sleep ms, OpCall]"
  by (simp add: emit_def sleep_def)

lemma emit_trace_append:
  "(emit OpCall (sleep ms s)) \<lparr> trace := trace (emit OpCall (sleep ms s)) @ xs \<rparr>
     = s \<lparr> trace := trace s @ [Sleep ms, OpCall] @ xs \<rparr>"
  by (simp add: emit_def sleep_def)

lemma recoveryLoop_success:
  assumes "1 \<le> i" "i \<le> n" "n \<le> m"
    and "\<forall>k. i \<le> k \<and> k < n \<longrightarrow> isl (outcome (op_calls (trace s) + (k - i)))"
    and "outcome (op_calls (trace s) + (n - i)) = Inr v"
  shows "recoveryLoop svc now err \<lparr>maxAttempts = m, backoffMs = b\<rparr> (scripted outcome) i s =
           (\<lparr> success = True, error = None,
              metadata = Some (createErrorMetadata svc now err ''recovered'' [(''attempts'', MNum n)]) \<rparr>,
            s \<lparr> trace := trace s @ retry_events b i (Suc n) \<rparr>)"
  using assms
proof (induction "n - i" arbitrary: i s)
  case 0
  then have in_eq: "i = n" by simp
  have out: "outcome (op_calls (trace (sleep (b * 2 ^ (n - 1)) s))) = Inr v"
    using "0.prems"(5) in_eq by (simp add: sleep_def emit_def op_calls_def)
  show ?case
    unfolding in_eq
    apply (subst recoveryLoop.simps)
    using "0.prems"(3) out
    by (simp add: scripted_def Let_def retry_events_def emit_def sleep_def)
next
  case (Suc d)
  then have lt: "i < n" by simp
  let ?s1 = "sleep (b * 2 ^ (i - 1)) s"
  let ?s2 = "emit OpCall ?s1"
  have fail: "isl (outcome (op_calls (trace s)))"
    using Suc.prems(4) lt by (metis diff_self_eq_0 add.right_neutral le_refl)
  then obtain e where e: "outcome (op_calls (trace s)) = Inl e" by (cases "outcome (op_calls (trace s))") auto
  have calls1: "op_calls (trace ?s1) = op_calls (trace s)" by (simp add: sleep_def emit_def op_calls_def)
  have calls2: "op_calls (trace ?s2) = Suc (op_calls (trace s))" by (rule op_calls_step)
  have step: "recoveryLoop svc now err \<lparr>maxAttempts = m, backoffMs = b\<rparr> (scripted outcome) i s
            = recoveryLoop svc now err \<lparr>maxAttempts = m, backoffMs = b\<rparr> (scripted outcome) (Suc i) ?s2"
    apply (subst recoveryLoop.simps)
    using lt Suc.prems(3) e calls1
    by (simp add: scripted_def Let_def)
  have IH: "recoveryLoop svc now err \<lparr>maxAttempts = m, backoffMs = b\<rparr> (scripted outcome) (Suc i) ?s2 =
           (\<lparr> success = True, error = None,
              metadata = Some (createErrorMetadata svc now err ''recovered'' [(''attempts'', MNum n)]) \<rparr>,
            ?s2 \<lparr> trace := trace ?s2 @ retry_events b (Suc i) (Suc n) \<rparr>)"
  proof (rule Suc.hyps(1))
    show "d = n - Suc i" using Suc.hyps(2) by simp
    show "1 \<le> Suc i" by simp
    show "Suc i \<le> n" using lt by simp
    show "n \<le> m" by (rule Suc.prems(3))
    show "\<forall>k. Suc i \<le> k \<and> k < n \<longrightarrow> isl (outcome (op_calls (trace ?s2) + (k - Suc i)))"
    proof (intro allI impI)
      fix k assume k: "Suc i \<le> k \<and> k < n"
      then have "isl (outcome (op_calls (trace s) + (k - i)))" using Suc.prems(4) by simp
      moreover have "op_calls (trace s) + (k - i) = op_calls (trace ?s2) + (k - Suc i)"
        unfolding calls2 using k by arith
      ultimately show "isl (outcome (op_calls (trace ?s2) + (k - Suc i)))" by simp
    qed
    have "op_calls (trace s) + (n - i) = op_calls (trace ?s2) + (n - Suc i)"
      unfolding calls2 using lt by arith
    then show "outcome (op_calls (trace ?s2) + (n - Suc i)) = Inr v" using Suc.prems(5) by simp
  qed
  have tr: "?s2 \<lparr> trace := trace ?s2 @ retry_events b (Suc i) (Suc n) \<rparr>
          = s \<lparr> trace := trace s @ retry_events b i (Suc n) \<rparr>"
    using retry_events_step[of i "Suc n" b] lt by (simp add: emit_trace_append)
  show ?case using step IH tr by simp
qed

lemma recoveryLoop_exhausted:
  assumes "1 \<le> i" "i \<le> m"
    and "\<forall>k. i \<le> k \<and> k \<le> m \<longrightarrow> isl (outcome (op_calls (trace s) + (k - i)))"
  shows "recoveryLoop svc now err \<lparr>maxAttempts = m, backoffMs = b\<rparr> (scripted outcome) i s =
           (\<lparr> success = False, error = Some (projl (outcome (op_calls (trace s) + (m - i)))),
              metadata = Some (createErrorMetadata svc now err ''max_attempts''
                 [(''attempts'', MNum (Suc m)),
                  (''finalError'', MErr (projl (outcome (op_calls (trace s) + (m - i)))))]) \<rparr>,
            s \<lparr> trace := trace s @ retry_events b i (Suc m) \<rparr>)"
  using assms
proof (induction "m - i" arbitrary: i s)
  case 0
  then have im: "i = m" by simp
  have "isl (outcome (op_calls (trace s)))"
    using "0.prems"(3) im by (metis diff_self_eq_0 add.right_neutral le_refl)
  then obtain e where e: "outcome (op_calls (trace s)) = Inl e"
    by (cases "outcome (op_calls (trace s))") auto
  have calls1: "op_calls (trace (sleep (b * 2 ^ (m - 1)) s)) = op_calls (trace s)"
    by (simp add: sleep_def emit_def op_calls_def)
  show ?case
    unfolding im
    apply (subst recoveryLoop.simps)
    using e calls1
    by (simp add: scripted_def Let_def retry_events_def emit_def sleep_def)
next
  case (Suc d)
  then have lt: "i < m" by simp
  let ?s1 = "sleep (b * 2 ^ (i - 1)) s"
  let ?s2 = "emit OpCall ?s1"
  have "isl (outcome (op_calls (trace s)))"
    using Suc.prems(3) lt by (metis diff_self_eq_0 add.right_neutral le_refl less_imp_le)
  then obtain e where e: "outcome (op_calls (trace s)) = Inl e"
    by (cases "outcome (op_calls (trace s))") auto
  have calls1: "op_calls (trace ?s1) = op_calls (trace s)"
    by (simp add: sleep_def emit_def op_calls_def)
  have calls2: "op_calls (trace ?s2) = Suc (op_calls (trace s))" by (rule op_calls_step)
  have step: "recoveryLoop svc now err \<lparr>maxAttempts = m, backoffMs = b\<rparr> (scripted outcome) i s
            = recoveryLoop svc now err \<lparr>maxAttempts = m, backoffMs = b\<rparr> (scripted outcome) (Suc i) ?s2"
    apply (subst recoveryLoop.simps)
    using lt e calls1
    by (simp add: scripted_def Let_def)
  have idx: "op_calls (trace ?s2) + (m - Suc i) = op_calls (trace s) + (m - i)"
    unfolding calls2 using lt by arith
  have IH: "recoveryLoop svc now err \<lparr>maxAttempts = m, backoffMs = b\<rparr> (scripted outcome) (Suc i) ?s2 =
           (\<lparr> success = False, error = Some (projl (outcome (op_calls (trace ?s2) + (m - Suc i)))),
              metadata = Some (createErrorMetadata svc now err ''max_attempts''
                 [(''attempts'', MNum (Suc m)),
                  (''finalError'', MErr (projl (outcome (op_calls (trace ?s2) + (m - Suc i)))))]) \<rparr>,
            ?s2 \<lparr> trace := trace ?s2 @ retry_events b (Suc i) (Suc m) \<rparr>)"
  proof (rule Suc.hyps(1))
    show "d = m - Suc i" using Suc.hyps(2) by simp
    show "1 \<le> Suc i" by simp
    show "Suc i \<le> m" using lt by simp
    show "\<forall>k. Suc i \<le> k \<and> k \<le> m \<longrightarrow> isl (outcome (op_calls (trace ?s2) + (k - Suc i)))"
    proof (intro allI impI)
      fix k assume k: "Suc i \<le> k \<and> k \<le> m"
      then have "isl (outcome (op_calls (trace s) + (k - i)))" using Suc.prems(3) by simp
      moreover have "op_calls (trace s) + (k - i) = op_calls (trace ?s2) + (k - Suc i)"
        unfolding calls2 using k by arith
      ultimately show "isl (outcome (op_calls (trace ?s2) + (k - Suc i)))" by simp
    qed
  qed
  have tr: "?s2 \<lparr> trace := trace ?s2 @ retry_events b (Suc i) (Suc m) \<rparr>
          = s \<lparr> trace := trace s @ retry_events b i (Suc m) \<rparr>"
    using retry_events_step[of i "Suc m" b] lt by (simp add: emit_trace_append)
  show ?case using step IH tr idx by simp
qed

text \<open>
  C8. For a retryable error with policy \<open>(m, b)\<close> and an operation whose first \<open>n - 1\<close>
  retries throw and whose \<open>n\<close>-th returns, \<open>n \<le> m\<close> (in particular \<open>n = m\<close>): the executor
  reports success with \<open>attempts = n\<close>. When all \<open>m\<close> retries throw it reports failure with
  the last thrown error attached. Either way every retry \<open>k\<close> is preceded by a sleep of
  \<open>b * 2 ^ (k - 1)\<close> milliseconds.
\<close>

theorem attemptRecovery_backoff_and_outcome:
  assumes retry: "retryable err"
    and opts: "retryOptions err = Some \<lparr>maxAttempts = m, backoffMs = b\<rparr>"
    and n1: "1 \<le> n" and nm: "n \<le> m"
  shows "((\<forall>k < n - 1. isl (outcome (op_calls (trace s) + k)))
            \<and> outcome (op_calls (trace s) + (n - 1)) = Inr v \<longrightarrow>
          (let (r, s') = attemptRecovery svc now err (scripted outcome) s
           in success r \<and> Option.bind (metadata r) (\<lambda>md. field md ''attempts'') = Some (MNum n)
              \<and> trace s' = trace s @ retry_events b 1 (n + 1)))
       \<and> ((\<forall>k < m. isl (outcome (op_calls (trace s) + k))) \<longrightarrow>
          (let (r, s') = attemptRecovery svc now err (scripted outcome) s
           in \<not> success r
              \<and> error r = Some (projl (outcome (op_calls (trace s) + (m - 1))))
              \<and> Option.bind (metadata r) (\<lambda>md. field md ''finalError'')
                    = Some (MErr (projl (outcome (op_calls (trace s) + (m - 1)))))
              \<and> trace s' = trace s @ retry_events b 1 (m + 1)))"
proof (intro conjI impI)
  assume a: "(\<forall>k < n - 1. isl (outcome (op_calls (trace s) + k)))
            \<and> outcome (op_calls (trace s) + (n - 1)) = Inr v"
  have "recoveryLoop svc now err \<lparr>maxAttempts = m, backoffMs = b\<rparr> (scripted outcome) 1 s =
           (\<lparr> success = True, error = None,
              metadata = Some (createErrorMetadata svc now err ''recovered'' [(''attempts'', MNum n)]) \<rparr>,
            s \<lparr> trace := trace s @ retry_events b 1 (Suc n) \<rparr>)"
  proof (rule recoveryLoop_success)
    show "1 \<le> (1::nat)" by simp
    show "1 \<le> n" by (rule n1)
    show "n \<le> m" by (rule nm)
    show "\<forall>k. 1 \<le> k \<and> k < n \<longrightarrow> isl (outcome (op_calls (trace s) + (k - 1)))"
    proof (intro allI impI)
      fix k assume "1 \<le> k \<and> k < n"
      then have "k - 1 < n - 1" by arith
      then show "isl (outcome (op_calls (trace s) + (k - 1)))" using a by blast
    qed
    show "outcome (op_calls (trace s) + (n - 1)) = Inr v" using a by simp
  qed
  then show "let (r, s') = attemptRecovery svc now err (scripted outcome) s
           in success r \<and> Option.bind (metadata r) (\<lambda>md. field md ''attempts'') = Some (MNum n)
              \<and> trace s' = trace s @ retry_events b 1 (n + 1)"
    using retry opts
    by (simp add: attemptRecovery_def shouldRetry_def createErrorMetadata_def field_def)
next
  assume a: "\<forall>k < m. isl (outcome (op_calls (trace s) + k))"
  have m1: "1 \<le> m" using n1 nm by simp
  have "recoveryLoop svc now err \<lparr>maxAttempts = m, backoffMs = b\<rparr> (scripted outcome) 1 s =
           (\<lparr> success = False, error = Some (projl (outcome (op_calls (trace s) + (m - 1)))),
              metadata = Some (createErrorMetadata svc now err ''max_attempts''
                 [(''attempts'', MNum (Suc m)),
                  (''finalError'', MErr (projl (outcome (op_calls (trace s) + (m - 1)))))]) \<rparr>,
            s \<lparr> trace := trace s @ retry_events b 1 (Suc m) \<rparr>)"
  proof (rule recoveryLoop_exhausted)
    show "1 \<le> (1::nat)" by simp
    show "1 \<le> m" by (rule m1)
    show "\<forall>k. 1 \<le> k \<and> k \<le> m \<longrightarrow> isl (outcome (op_calls (trace s) + (k - 1)))"
    proof (intro allI impI)
      fix k assume "1 \<le> k \<and> k \<le> m"
      then have "k - 1 < m" by arith
      then show "isl (outcome (op_calls (trace s) + (k - 1)))" using a by blast
    qed
  qed
  then show "let (r, s') = attemptRecovery svc now err (scripted outcome) s
           in \<not> success r
              \<and> error r = Some (projl (outcome (op_calls (trace s) + (m - 1))))
              \<and> Option.bind (metadata r) (\<lambda>md. field md ''finalError'')
                    = Some (MErr (projl (outcome (op_calls (trace s) + (m - 1)))))
              \<and> trace s' = trace s @ retry_events b 1 (m + 1)"
    using retry opts
    by (simp add: attemptRecovery_def shouldRetry_def createErrorMetadata_def field_def)
qed

lemma retry_events_3: "retry_events 1000 1 (3 + 1) = [Sleep 1000, OpCall, Sleep 2000, OpCall, Sleep 4000, OpCall]"
  by (simp add: retry_events_def upt_rec)

theorem attemptRecovery_backoff_and_outcome_witness:
  "retryable (InitializationError (js ''init'') None)
   \<and> retryOptions (InitializationError (js ''init'') None) = Some \<lparr>maxAttempts = 3, backoffMs = 1000\<rparr>
   \<and> isl (fails_twice 0) \<and> isl (fails_twice 1) \<and> fails_twice 2 = Inr ()
   \<and> (let (r, s') = attemptRecovery ''SentimentAnalysis'' 0 (InitializationError (js ''init'') None)
                        (scripted fails_twice) s_init
      in success r \<and> Option.bind (metadata r) (\<lambda>md. field md ''attempts'') = Some (MNum 3)
         \<and> trace s' = [Sleep 1000, OpCall, Sleep 2000, OpCall, Sleep 4000, OpCall])
   \<and> isl (always_fails 0) \<and> isl (always_fails 1) \<and> isl (always_fails 2)
   \<and> (let (r, s') = attemptRecovery ''SentimentAnalysis'' 0 (InitializationError (js ''init'') None)
                        (scripted always_fails) s_init
      in \<not> success r \<and> error r = Some (PlainError (js ''failure 2''))
         \<and> trace s' = [Sleep 1000, OpCall, Sleep 2000, OpCall, Sleep 4000, OpCall])"
proof -
  have h1: "retryable (InitializationError (js ''init'') None)" by (simp add: InitializationError_def)
  have h2: "retryOptions (InitializationError (js ''init'') None) = Some \<lparr>maxAttempts = 3, backoffMs = 1000\<rparr>"
    by (simp add: InitializationError_def)
  have c0: "op_calls (trace s_init) = 0" by (simp add: s_init_def op_calls_def)
  have a1: "\<forall>k < 3 - 1. isl (fails_twice (op_calls (trace s_init) + k))"
    by (simp add: c0 fails_twice_def)
  have a2: "fails_twice (op_calls (trace s_init) + (3 - 1)) = Inr ()"
    by (simp add: c0 fails_twice_def)
  have a3: "\<forall>k < 3. isl (always_fails (op_calls (trace s_init) + k))"
    by (simp add: always_fails_def)
  have f2: "projl (always_fails (op_calls (trace s_init) + (3 - 1))) = PlainError (js ''failure 2'')"
    by (simp add: c0 always_fails_def string_of_nat.simps digit_char_def)
  have tr: "trace s_init = []" by (simp add: s_init_def)
  have A: "let (r, s') = attemptRecovery ''SentimentAnalysis'' 0 (InitializationError (js ''init'') None)
                        (scripted fails_twice) s_init
      in success r \<and> Option.bind (metadata r) (\<lambda>md. field md ''attempts'') = Some (MNum 3)
         \<and> trace s' = [Sleep 1000, OpCall, Sleep 2000, OpCall, Sleep 4000, OpCall]"
    using attemptRecovery_backoff_and_outcome[OF h1 h2, of 3 fails_twice s_init "()" "''SentimentAnalysis''" 0]
      a1 a2 tr retry_events_3 by (simp split: prod.splits)
  have B: "let (r, s') = attemptRecovery ''SentimentAnalysis'' 0 (InitializationError (js ''init'') None)
                        (scripted always_fails) s_init
      in \<not> success r \<and> error r = Some (PlainError (js ''failure 2''))
         \<and> trace s' = [Sleep 1000, OpCall, Sleep 2000, OpCall, Sleep 4000, OpCall]"
    using attemptRecovery_backoff_and_outcome[OF h1 h2, of 3 always_fails s_init "()" "''SentimentAnalysis''" 0]
      a3 f2 tr retry_events_3 by (simp split: prod.splits)
  show ?thesis using h1 h2 A B by (simp add: fails_twice_def always_fails_def)
qed

section \<open>Properties of the sentiment service\<close>

lemma recoveryLoop_metadata:
  "\<exists>md. metadata (fst (recoveryLoop svc now err options operation k s)) = Some md
     \<and> field md ''result'' = None"
proof (induction svc now err options operation k s rule: recoveryLoop.induct)
  case (1 svc now err options operation k s)
  show ?case
  proof (cases "k \<le> maxAttempts options")
    case False
    then show ?thesis
      by (subst recoveryLoop.simps) (simp add: createErrorMetadata_def field_def)
  next
    case True
    let ?s1 = "sleep (backoffMs options * 2 ^ (k - 1)) s"
    obtain out s2 where op: "operation ?s1 = (out, s2)" by (cases "operation ?s1")
    show ?thesis
    proof (cases out)
      case (Inr v)
      then show ?thesis using True op
        by (subst recoveryLoop.simps) (simp add: Let_def createErrorMetadata_def field_def)
    next
      case (Inl retryError)
      show ?thesis
      proof (cases "k + 1 > maxAttempts options")
        case True
        then show ?thesis using \<open>k \<le> maxAttempts options\<close> op Inl
          by (subst recoveryLoop.simps) (simp add: Let_def createErrorMetadata_def field_def)
      next
        case False
        have "recoveryLoop svc now err options operation k s
            = recoveryLoop svc now err options operation (k + 1) s2"
          using \<open>k \<le> maxAttempts options\<close> op Inl False
          by (subst recoveryLoop.simps) (simp add: Let_def)
        moreover have "\<exists>md. metadata (fst (recoveryLoop svc now err options operation (k + 1) s2)) = Some md
             \<and> field md ''result'' = None"
          using "1.IH"[OF \<open>k \<le> maxAttempts options\<close> refl refl op[symmetric] Inl False] .
        ultimately show ?thesis by simp
      qed
    qed
  qed
qed

lemma attemptRecovery_metadata:
  "\<exists>md. metadata (fst (attemptRecovery svc now err operation s)) = Some md
     \<and> field md ''result'' = None"
proof (cases "retryable err \<and> retryOptions err \<noteq> None")
  case True
  then obtain options where "retryOptions err = Some options" by auto
  then show ?thesis using True recoveryLoop_metadata[of svc now err options operation 1 s]
    by (simp add: attemptRecovery_def shouldRetry_def)
next
  case False
  then show ?thesis
    by (auto simp: attemptRecovery_def shouldRetry_def createErrorMetadata_def field_def split: bool.splits option.splits)
qed

lemma attemptRecovery_metadata_result:
  "metadata_result (fst (attemptRecovery svc now err operation s)) = None"
  using attemptRecovery_metadata[of svc now err operation s]
  by (auto simp: metadata_result_def)

text \<open>
  C6. The metadata of a successful recovery has no \<open>result\<close> field: the value the recovered
  operation returned is dropped. So when the first call fails, \<open>generateEmbeddingWithRetry\<close>
  and \<open>queryVectorStoreWithRetry\<close> can only return \<open>undefined\<close>.
\<close>

theorem recovered_value_is_discarded:
  "(success (fst (attemptRecovery svc now err operation s)) \<longrightarrow>
      (\<exists>md. metadata (fst (attemptRecovery svc now err operation s)) = Some md
            \<and> field md ''result'' = None))
   \<and> (isl (fst (generateEmbedding env txt s1)) \<longrightarrow>
        (\<forall>v. fst (generateEmbeddingWithRetry env txt s1) = Inr v \<longrightarrow> v = None))
   \<and> (isl (fst (vectorStore_query env vector topK s2)) \<longrightarrow>
        (\<forall>v. fst (queryVectorStoreWithRetry env vector topK s2) = Inr v \<longrightarrow> v = None))"
proof (intro conjI impI allI)
  show "\<exists>md. metadata (fst (attemptRecovery svc now err operation s)) = Some md
            \<and> field md ''result'' = None"
    by (rule attemptRecovery_metadata)
next
  fix v
  assume f: "isl (fst (generateEmbedding env txt s1))"
    and r: "fst (generateEmbeddingWithRetry env txt s1) = Inr v"
  obtain e s3 where g: "generateEmbedding env txt s1 = (Inl e, s3)"
    using f by (cases "generateEmbedding env txt s1"; cases "fst (generateEmbedding env txt s1)") auto
  show "v = None"
    using r g attemptRecovery_metadata_result[of "''SentimentAnalysis''" "clock env"
        "EmbeddingError (js ''Failed to generate embedding for text: '' @ txt) (cause_of e)"
        "generateEmbedding env txt" s3]
    by (auto simp: generateEmbeddingWithRetry_def Let_def split: prod.splits if_splits)
next
  fix v
  assume f: "isl (fst (vectorStore_query env vector topK s2))"
    and r: "fst (queryVectorStoreWithRetry env vector topK s2) = Inr v"
  obtain e s3 where g: "vectorStore_query env vector topK s2 = (Inl e, s3)"
    using f by (cases "vectorStore_query env vector topK s2"; cases "fst (vectorStore_query env vector topK s2)") auto
  show "v = None"
    using r g attemptRecovery_metadata_result[of "''SentimentAnalysis''" "clock env"
        "VectorStoreError (js ''Failed to query vector store'') (cause_of e)"
        "vectorStore_query env vector topK" s3]
    by (auto simp: queryVectorStoreWithRetry_def Let_def split: prod.splits if_splits)
qed

lemma env_flaky_first_call: "generateEmbedding env_flaky (js ''gm'') s_init = (Inl (PlainError (js ''timeout'')), s_init\<lparr>trace := [EmbeddingCall (js ''gm'')]\<rparr>)"
  by (simp add: generateEmbedding_def env_flaky_def s_init_def emit_def)

lemma env_flaky_embedding: "generateEmbeddingWithRetry env_flaky (js ''gm'') s_init =
   (Inr None, s_init\<lparr>trace := [EmbeddingCall (js ''gm''), Sleep 500, EmbeddingCall (js ''gm'')]\<rparr>)"
  by (simp add: generateEmbeddingWithRetry_def generateEmbedding_def env_flaky_def s_init_def emit_def sleep_def
      attemptRecovery_def shouldRetry_def EmbeddingError_def recoveryLoop.simps Let_def metadata_result_def
      createErrorMetadata_def field_def)

lemma env_flaky_query: "queryVectorStoreWithRetry env_flaky [0.25] 5 s_init =
   (Inr None, s_init\<lparr>trace := [VectorQuery [0.25] 5, Sleep 1000, VectorQuery [0.25] 5]\<rparr>)"
  by (simp add: queryVectorStoreWithRetry_def vectorStore_query_def env_flaky_def s_init_def emit_def sleep_def
      attemptRecovery_def shouldRetry_def VectorStoreError_def recoveryLoop.simps Let_def metadata_result_def
      createErrorMetadata_def field_def)

theorem recovered_value_is_discarded_witness:
  "success (fst (attemptRecovery ''SentimentAnalysis'' 0
       (EmbeddingError (js ''Failed to generate embedding'') None)
       (generateEmbedding env_flaky (js ''gm'')) (s_init\<lparr>trace := [EmbeddingCall (js ''gm'')]\<rparr>)))
   \<and> (\<exists>md. metadata (fst (attemptRecovery ''SentimentAnalysis'' 0
          (EmbeddingError (js ''Failed to generate embedding'') None)
          (generateEmbedding env_flaky (js ''gm'')) (s_init\<lparr>trace := [EmbeddingCall (js ''gm'')]\<rparr>))) = Some md
        \<and> field md ''result'' = None)
   \<and> isl (fst (generateEmbedding env_flaky (js ''gm'') s_init))
   \<and> fst (generateEmbeddingWithRetry env_flaky (js ''gm'') s_init) = Inr None
   \<and> isl (fst (vectorStore_query env_flaky [0.25] 5 s_init))
   \<and> fst (queryVectorStoreWithRetry env_flaky [0.25] 5 s_init) = Inr None"
proof -
  let ?E = "EmbeddingError (js ''Failed to generate embedding'') None"
  let ?s1 = "s_init\<lparr>trace := [EmbeddingCall (js ''gm'')]\<rparr>"
  have h1: "success (fst (attemptRecovery ''SentimentAnalysis'' 0 ?E
               (generateEmbedding env_flaky (js ''gm'')) ?s1))"
    by (simp add: generateEmbedding_def env_flaky_def s_init_def emit_def sleep_def
        attemptRecovery_def shouldRetry_def EmbeddingError_def recoveryLoop.simps Let_def)
  have h2: "isl (fst (generateEmbedding env_flaky (js ''gm'') s_init))"
    by (simp add: generateEmbedding_def env_flaky_def s_init_def)
  have h3: "isl (fst (vectorStore_query env_flaky [0.25] 5 s_init))"
    by (simp add: vectorStore_query_def env_flaky_def s_init_def)
  have r2: "fst (generateEmbeddingWithRetry env_flaky (js ''gm'') s_init) = Inr None"
    unfolding env_flaky_embedding by simp
  have r3: "fst (queryVectorStoreWithRetry env_flaky [0.25] 5 s_init) = Inr None"
    unfolding env_flaky_query by simp
  note inst = recovered_value_is_discarded[of "''SentimentAnalysis''" 0 ?E
      "generateEmbedding env_flaky (js ''gm'')" ?s1 env_flaky "js ''gm''" s_init "[0.25]" 5 s_init]
  from inst h1 have c1: "\<exists>md. metadata (fst (attemptRecovery ''SentimentAnalysis'' 0 ?E
          (generateEmbedding env_flaky (js ''gm'')) ?s1)) = Some md \<and> field md ''result'' = None"
    by blast
  show ?thesis using h1 c1 h2 r2 h3 r3 by blast
qed

lemma recoveryLoop_preserves:
  assumes op: "\<And>s. f (snd (operation s)) = f s" and em: "\<And>e s. f (emit e s) = f s"
  shows "f (snd (recoveryLoop svc now err options operation k s)) = f s"
  using assms
proof (induction svc now err options operation k s rule: recoveryLoop.induct)
  case (1 svc now err options operation k s)
  note op1 = "1.prems"(1) and em1 = "1.prems"(2)
  show ?case
  proof (cases "k \<le> maxAttempts options")
    case False
    then show ?thesis by (subst recoveryLoop.simps) simp
  next
    case True
    let ?s1 = "sleep (backoffMs options * 2 ^ (k - 1)) s"
    obtain out s2 where opeq: "operation ?s1 = (out, s2)" by (cases "operation ?s1")
    have fs2: "f s2 = f s" using op1[of ?s1] opeq em1 by (simp add: sleep_def)
    show ?thesis
    proof (cases out)
      case (Inr v)
      then show ?thesis using True opeq fs2
        by (subst recoveryLoop.simps) (simp add: Let_def)
    next
      case (Inl retryError)
      show ?thesis
      proof (cases "k + 1 > maxAttempts options")
        case True
        then show ?thesis using \<open>k \<le> maxAttempts options\<close> opeq Inl fs2
          by (subst recoveryLoop.simps) (simp add: Let_def)
      next
        case False
        have "recoveryLoop svc now err options operation k s
            = recoveryLoop svc now err options operation (k + 1) s2"
          using \<open>k \<le> maxAttempts options\<close> opeq Inl False
          by (subst recoveryLoop.simps) (simp add: Let_def)
        moreover have "f (snd (recoveryLoop svc now err options operation (k + 1) s2)) = f s2"
          using "1.IH"[OF \<open>k \<le> maxAttempts options\<close> refl refl opeq[symmetric] Inl False op1 em1] .
        ultimately show ?thesis using fs2 by simp
      qed
    qed
  qed
qed

lemma attemptRecovery_preserves:
  assumes op: "\<And>s. f (snd (operation s)) = f s" and em: "\<And>e s. f (emit e s) = f s"
  shows "f (snd (attemptRecovery svc now err operation s)) = f s"
  using recoveryLoop_preserves[of f operation, OF op em]
  by (simp add: attemptRecovery_def shouldRetry_def Let_def split: option.splits)

lemma emit_fields [simp]:
  "observers (emit e s) = observers s" "initialized (emit e s) = initialized s"
  "cache (emit e s) = cache s"
  by (simp_all add: emit_def)

lemma anchors_initialized: "initialized (snd (initializeSentimentAnchors env s)) = initialized s"
  by (simp add: initializeSentimentAnchors_def)

text \<open>
  Whenever the first anchor initialisation fails, \<open>initialize\<close> leaves the flag unset,
  whether the recovery succeeds or not.
\<close>

lemma initialize_recovery_path:
  assumes "\<not> initialized s" and "isl (fst (initializeSentimentAnchors env s))"
  shows "\<not> initialized (snd (initialize env s))"
proof -
  obtain e s1 where a: "initializeSentimentAnchors env s = (Inl e, s1)"
    using assms(2) by (cases "initializeSentimentAnchors env s"; cases "fst (initializeSentimentAnchors env s)") auto
  have s1: "initialized s1 = initialized s" using anchors_initialized[of env s] a by simp
  have "initialized (snd (attemptRecovery ''SentimentAnalysis'' (clock env)
           (InitializationError (js ''Failed to initialize sentiment anchors'') (cause_of e))
           (initializeSentimentAnchors env) s1)) = initialized s1"
    by (rule attemptRecovery_preserves) (simp_all add: anchors_initialized)
  then show ?thesis using assms(1) a s1
    by (auto simp: initialize_def Let_def split: prod.splits)
qed

text \<open>
  When the first anchorinitialisation throws \<open>e\<close>, \<open>initialize\<close> returns normally if the
  recovery succeeds and throws the initialization error otherwise.
\<close>

lemma initialize_recovery_outcome:
  assumes "\<not> initialized s" and "initializeSentimentAnchors env s = (Inl e, s1)"
  shows "fst (initialize env s) =
           (if success (fst (attemptRecovery ''SentimentAnalysis'' (clock env)
                  (InitializationError (js ''Failed to initialize sentiment anchors'') (cause_of e))
                  (initializeSentimentAnchors env) s1))
            then Inr ()
            else Inl (Sentiment (InitializationError (js ''Failed to initialize sentiment anchors'')
                        (cause_of e))))"
  using assms by (simp add: initialize_def Let_def split: prod.splits)

lemma initialize_when_ready: "initialized s \<Longrightarrow> initialize env s = (Inr (), s)"
  by (simp add: initialize_def)

lemma initialize_first_attempt:
  assumes "\<not> initialized s" and "\<not> isl (fst (initializeSentimentAnchors env s))"
  shows "fst (initialize env s) = Inr ()" and "initialized (snd (initialize env s))"
  using assms by (auto simp: initialize_def split: prod.splits sum.splits)

lemma initialize_first_run: "initialize env_anchor_retry s_init = (Inr (), s_init\<lparr>trace := [AnchorInit, Sleep 1000, AnchorInit]\<rparr>)"
  by (simp add: initialize_def initializeSentimentAnchors_def env_anchor_retry_def env_quiet_def s_init_def emit_def sleep_def
      attemptRecovery_def shouldRetry_def InitializationError_def recoveryLoop.simps Let_def)

lemma initialize_second_run: "initialize env_anchor_retry (s_init\<lparr>trace := [AnchorInit, Sleep 1000, AnchorInit]\<rparr>)
   = (Inr (), s_init\<lparr>trace := [AnchorInit, Sleep 1000, AnchorInit, AnchorInit], initialized := True\<rparr>)"
  by (simp add: initialize_def initializeSentimentAnchors_def env_anchor_retry_def env_quiet_def s_init_def emit_def)

text \<open>
  C9. The first anchor initialisation fails and the first retry of the recovery succeeds:
  \<open>initialize\<close> returns normally, but the \<open>initialized\<close> flag is still unset (only the
  first-attempt path sets it), and the next \<open>initialize\<close> initialises the anchors again.
\<close>

theorem initialize_recovered_stays_uninitialized:
  "initialize env_anchor_retry s_init = (Inr (), s_init\<lparr>trace := [AnchorInit, Sleep 1000, AnchorInit]\<rparr>)
   \<and> initialized (s_init\<lparr>trace := [AnchorInit, Sleep 1000, AnchorInit]\<rparr>) = False
   \<and> trace (snd (initialize env_anchor_retry (snd (initialize env_anchor_retry s_init))))
       = [AnchorInit, Sleep 1000, AnchorInit, AnchorInit]"
  by (simp add: initialize_first_run initialize_second_run) (simp add: s_init_def)

lemma notifyLoop_trace:
  "trace (snd (notifyLoop env r obs s)) = trace s @ map (\<lambda>ob. Notify ob r) (upto_first_throw env r obs)"
  by (induction obs arbitrary: s) (auto simp: Let_def emit_def split: option.splits)

lemma observers_generateEmbedding: "observers (snd (generateEmbedding env t s)) = observers s"
  by (simp add: generateEmbedding_def)

lemma observers_vectorStore_query: "observers (snd (vectorStore_query env v k s)) = observers s"
  by (simp add: vectorStore_query_def)

lemma observers_anchors: "observers (snd (initializeSentimentAnchors env s)) = observers s"
  by (simp add: initializeSentimentAnchors_def)

lemma attemptRecovery_observers:
  assumes "\<And>s. observers (snd (operation s)) = observers s"
    and "attemptRecovery svc now err operation s = (r, s')"
  shows "observers s' = observers s"
  using attemptRecovery_preserves[of observers operation svc now err s] assms by simp

lemma observers_initialize: "observers (snd (initialize env s)) = observers s"
proof (cases "initialized s")
  case True
  then show ?thesis by (simp add: initialize_def)
next
  case False
  obtain out s1 where a: "initializeSentimentAnchors env s = (out, s1)"
    by (cases "initializeSentimentAnchors env s")
  have o1: "observers s1 = observers s" using observers_anchors[of env s] a by simp
  show ?thesis
  proof (cases out)
    case (Inr u)
    then show ?thesis using False a o1 by (simp add: initialize_def)
  next
    case (Inl e)
    obtain r s2 where rec: "attemptRecovery ''SentimentAnalysis'' (clock env)
           (InitializationError (js ''Failed to initialize sentiment anchors'') (cause_of e))
           (initializeSentimentAnchors env) s1 = (r, s2)"
      by (metis surj_pair)
    have "observers s2 = observers s1"
      using attemptRecovery_observers[OF _ rec] observers_anchors by simp
    then show ?thesis using False a Inl rec o1 by (simp add: initialize_def)
  qed
qed

lemma observers_generateEmbeddingWithRetry:
  "observers (snd (generateEmbeddingWithRetry env t s)) = observers s"
proof -
  obtain out s1 where a: "generateEmbedding env t s = (out, s1)"
    by (cases "generateEmbedding env t s")
  have o1: "observers s1 = observers s" using observers_generateEmbedding[of env t s] a by simp
  show ?thesis
  proof (cases out)
    case (Inr v)
    then show ?thesis using a o1 by (simp add: generateEmbeddingWithRetry_def)
  next
    case (Inl e)
    obtain r s2 where rec: "attemptRecovery ''SentimentAnalysis'' (clock env)
           (EmbeddingError (js ''Failed to generate embedding for text: '' @ t) (cause_of e))
           (generateEmbedding env t) s1 = (r, s2)"
      by (metis surj_pair)
    have "observers s2 = observers s1"
      using attemptRecovery_observers[OF _ rec] observers_generateEmbedding by simp
    then show ?thesis using a Inl rec o1 by (simp add: generateEmbeddingWithRetry_def)
  qed
qed

lemma observers_queryVectorStoreWithRetry:
  "observers (snd (queryVectorStoreWithRetry env v k s)) = observers s"
proof -
  obtain out s1 where a: "vectorStore_query env v k s = (out, s1)"
    by (cases "vectorStore_query env v k s")
  have o1: "observers s1 = observers s" using observers_vectorStore_query[of env v k s] a by simp
  show ?thesis
  proof (cases out)
    case (Inr v)
    then show ?thesis using a o1 by (simp add: queryVectorStoreWithRetry_def)
  next
    case (Inl e)
    obtain r s2 where rec: "attemptRecovery ''SentimentAnalysis'' (clock env)
           (VectorStoreError (js ''Failed to query vector store'') (cause_of e))
           (vectorStore_query env v k) s1 = (r, s2)"
      by (metis surj_pair)
    have "observers s2 = observers s1"
      using attemptRecovery_observers[OF _ rec] observers_vectorStore_query by simp
    then show ?thesis using a Inl rec o1 by (simp add: queryVectorStoreWithRetry_def)
  qed
qed

lemma and_then_preserves:
  assumes "g (snd m) = g s0" and "\<And>a s. g (snd (f a s)) = g s"
  shows "g (snd (and_then m f)) = g s0"
proof (cases m)
  case (Pair out s1)
  show ?thesis
  proof (cases out)
    case (Inl e)
    then show ?thesis using assms(1) Pair by (simp add: and_then_def)
  next
    case (Inr a)
    then show ?thesis using assms(1) assms(2)[of a s1] Pair by (simp add: and_then_def)
  qed
qed

lemma observers_compute:
  "observers (snd (analyzeSentiment_compute env txt ctx s0)) = observers s0"
  unfolding analyzeSentiment_compute_def
  apply (intro and_then_preserves[where g = observers])
        apply (simp add: observers_initialize)
       apply (rule observers_generateEmbeddingWithRetry)
      apply (simp add: strategy_analyze_def)
     apply simp
    apply (rule observers_queryVectorStoreWithRetry)
   apply simp
  apply (simp add: Let_def)
  done

lemma notifyLoop_all_ok:
  "\<forall>ob \<in> set obs. onSentimentUpdate env ob r = None \<Longrightarrow>
     notifyLoop env r obs s = (Inr (), s\<lparr>trace := trace s @ map (\<lambda>ob. Notify ob r) obs\<rparr>)"
  by (induction obs arbitrary: s) (simp_all add: Let_def emit_def)

lemma notifyLoop_first_throw:
  "\<forall>p \<in> set pre. onSentimentUpdate env p r = None \<Longrightarrow> onSentimentUpdate env ob r = Some e \<Longrightarrow>
     notifyLoop env r (pre @ ob # post) s
       = (Inl e, s\<lparr>trace := trace s @ map (\<lambda>ob. Notify ob r) (pre @ [ob])\<rparr>)"
  by (induction pre arbitrary: s) (simp_all add: Let_def emit_def)

lemma distinct_observers:
  "distinct (observers s) \<Longrightarrow> distinct (observers (addObserver ob s))"
  "distinct (observers s) \<Longrightarrow> distinct (observers (removeObserver ob s))"
  by (simp_all add: addObserver_def removeObserver_def distinct_removeAll)

text \<open>
  The analysis reaches the notification when the service is initialized and the first call
  to each collaborator succeeds.
\<close>

lemma analyzeSentiment_compute_direct:
  assumes "initialized s"
    and "generateEmbedding_out env (trace s) t = Inr emb"
    and "currentStrategy env t (Some emb) = Inr sc"
    and "query_out env (trace s @ [EmbeddingCall t, StrategyCall t]) emb 5 = Inr ms"
  shows "analyzeSentiment_compute env t ctx s =
     (Inr \<lparr> res_score = sc,
            res_context = \<lparr> recentTrend = calculateTrend (map m_score ms),
                            volatility = calculateVolatility (map m_score ms),
                            dominantCategory = getDominantCategory ms (category sc) \<rparr> \<rparr>,
      s \<lparr> trace := trace s @
            [EmbeddingCall t, StrategyCall t, VectorQuery emb 5,
             CacheWriteScheduled
               \<lparr> cd_messageHash = sha256 env t, cd_embedding = emb, cd_sentiment = score sc,
                 cd_confidence = confidence sc, cd_context = ms, cd_userId = ctx_userId ctx,
                 cd_roomId = ctx_roomId ctx,
                 cd_senderName = senderName_or_Unknown (ctx_senderName ctx) \<rparr>] \<rparr>)"
  using assms
  by (simp add: analyzeSentiment_compute_def and_then_def generateEmbeddingWithRetry_def
      generateEmbedding_def strategy_analyze_def defined_def queryVectorStoreWithRetry_def
      vectorStore_query_def emit_def Let_def)

lemma first_throw_split:
  "(\<forall>ob \<in> set obs. onSentimentUpdate env ob r = None)
   \<or> (\<exists>pre ob post e. obs = pre @ ob # post
         \<and> (\<forall>p \<in> set pre. onSentimentUpdate env p r = None)
         \<and> onSentimentUpdate env ob r = Some e)"
proof (cases "\<exists>ob \<in> set obs. onSentimentUpdate env ob r \<noteq> None")
  case True
  then obtain pre ob post where "obs = pre @ ob # post" "onSentimentUpdate env ob r \<noteq> None"
    "\<forall>p \<in> set pre. \<not> onSentimentUpdate env p r \<noteq> None"
    using split_list_first_prop[of obs "\<lambda>ob. onSentimentUpdate env ob r \<noteq> None"] by blast
  then show ?thesis by auto
next
  case False
  then show ?thesis by simp
qed

text \<open>
  C3 (amended). Let the analysis reach the notification with result \<open>r\<close> in state \<open>s1\<close>. If no
  registered observer throws on \<open>r\<close>, all of them are notified, in registration order, and
  \<open>analyzeSentiment\<close> returns \<open>r\<close>. If the observers \<open>pre\<close> do not throw and the next one, \<open>ob\<close>,
  throws \<open>e\<close>, then exactly \<open>pre\<close> and \<open>ob\<close> are notified, the observers registered after \<open>ob\<close>
  are not, and \<open>analyzeSentiment\<close> throws an \<open>AnalysisError\<close> whose cause is \<open>e\<close> when \<open>e\<close> is an
  \<open>Error\<close>. One of the two cases always applies. (The observers are a \<open>Set\<close>: \<open>addObserver\<close>
  and \<open>removeObserver\<close> keep the list free of duplicates.)
\<close>

theorem notifyObservers_stops_at_first_throw:
  assumes "analyzeSentiment_compute env t ctx s0 = (Inr r, s1)"
  shows "((\<forall>ob \<in> set (observers s0). onSentimentUpdate env ob r = None) \<longrightarrow>
            analyzeSentiment env t ctx s0
              = (Inr r, s1\<lparr>trace := trace s1 @ map (\<lambda>ob. Notify ob r) (observers s0)\<rparr>))
       \<and> (\<forall>pre ob post e.
            observers s0 = pre @ ob # post
              \<and> (\<forall>p \<in> set pre. onSentimentUpdate env p r = None)
              \<and> onSentimentUpdate env ob r = Some e \<longrightarrow>
            analyzeSentiment env t ctx s0
              = (Inl (Sentiment (AnalysisError (js ''Failed to analyze sentiment'') (cause_of e))),
                 s1\<lparr>trace := trace s1 @ map (\<lambda>ob. Notify ob r) (pre @ [ob])\<rparr>)
            \<and> (distinct (observers s0) \<longrightarrow>
                 (\<forall>later \<in> set post. Notify later r \<notin> set (map (\<lambda>ob. Notify ob r) (pre @ [ob])))))
       \<and> ((\<forall>ob \<in> set (observers s0). onSentimentUpdate env ob r = None)
          \<or> (\<exists>pre ob post e. observers s0 = pre @ ob # post
                \<and> (\<forall>p \<in> set pre. onSentimentUpdate env p r = None)
                \<and> onSentimentUpdate env ob r = Some e))"
proof (intro conjI impI allI)
  have o: "observers s1 = observers s0"
    using observers_compute[of env t ctx s0] assms by simp
  have tr: "analyzeSentiment_try env t ctx s0
             = and_then (notifyLoop env r (observers s0) s1) (\<lambda>u s. (Inr r, s))"
    using assms o by (simp add: analyzeSentiment_try_def and_then_def notifyObservers_def)
  {
    assume "\<forall>ob \<in> set (observers s0). onSentimentUpdate env ob r = None"
    then have "notifyLoop env r (observers s0) s1
                 = (Inr (), s1\<lparr>trace := trace s1 @ map (\<lambda>ob. Notify ob r) (observers s0)\<rparr>)"
      by (rule notifyLoop_all_ok)
    then show "analyzeSentiment env t ctx s0
              = (Inr r, s1\<lparr>trace := trace s1 @ map (\<lambda>ob. Notify ob r) (observers s0)\<rparr>)"
      by (simp add: analyzeSentiment_def tr and_then_def)
  }
  {
    fix pre ob post e
    assume a: "observers s0 = pre @ ob # post
              \<and> (\<forall>p \<in> set pre. onSentimentUpdate env p r = None)
              \<and> onSentimentUpdate env ob r = Some e"
    then have "notifyLoop env r (pre @ ob # post) s1
                 = (Inl e, s1\<lparr>trace := trace s1 @ map (\<lambda>ob. Notify ob r) (pre @ [ob])\<rparr>)"
      by (intro notifyLoop_first_throw) simp_all
    then show "analyzeSentiment env t ctx s0
              = (Inl (Sentiment (AnalysisError (js ''Failed to analyze sentiment'') (cause_of e))),
                 s1\<lparr>trace := trace s1 @ map (\<lambda>ob. Notify ob r) (pre @ [ob])\<rparr>)"
      using a by (simp add: analyzeSentiment_def tr and_then_def)
    show "\<forall>later \<in> set post. Notify later r \<notin> set (map (\<lambda>ob. Notify ob r) (pre @ [ob]))"
      if "distinct (observers s0)"
      using a that by auto
  }
  show "(\<forall>ob \<in> set (observers s0). onSentimentUpdate env ob r = None)
          \<or> (\<exists>pre ob post e. observers s0 = pre @ ob # post
                \<and> (\<forall>p \<in> set pre. onSentimentUpdate env p r = None)
                \<and> onSentimentUpdate env ob r = Some e)"
    by (rule first_throw_split)
qed

lemma s_obs12_observers: "observers s_obs12 = [1, 2]"
  by (simp add: s_obs12_def s_ready_def s_init_def addObserver_def)

lemma trend_nil: "calculateTrend [] = Num 0" "calculateVolatility [] = Num 0"
  by (simp_all add: calculateTrend_def calculateVolatility_def)

lemma dominant_nil: "getDominantCategory [] c = c"
  by (simp add: getDominantCategory_def List.map_filter_simps)

lemma analyze_obs:
  "analyzeSentiment env_obs (js ''gm'') ctx_alice s_obs12 =
     (Inl (Sentiment (AnalysisError (js ''Failed to analyze sentiment'')
                        (Some (PlainError (js ''observer failed''))))),
      s_obs12 \<lparr> trace := [EmbeddingCall (js ''gm''), StrategyCall (js ''gm''), VectorQuery [0.25] 5,
                            CacheWriteScheduled (gm_cache_data ''hash''), Notify 1 fresh_result] \<rparr>)"
  by (simp add: analyzeSentiment_def analyzeSentiment_try_def analyzeSentiment_compute_def cause_of_def
      and_then_def env_obs_def env_quiet_def
      s_obs12_def s_ready_def s_init_def addObserver_def generateEmbeddingWithRetry_def generateEmbedding_def
      strategy_analyze_def defined_def queryVectorStoreWithRetry_def vectorStore_query_def emit_def
      notifyObservers_def Let_def trend_nil dominant_nil bullish_half_def fresh_result_def
      gm_cache_data_def ctx_alice_def senderName_or_Unknown_def)

lemma cached_present:
  "getCachedSentiment h ''2024-02-20 12:00:00'' (js ''gm'') [gm_row (h (js ''gm''))]
    = Some \<lparr> ce_messageHash = h (js ''gm''), ce_sentiment = 0.9, ce_confidence = 0.8,
              ce_context = [], ce_expiresAt = SqlText ''2999-12-31 23:59:59'',
              ce_userId = ''u2'', ce_roomId = ''r1'' \<rparr>"
  by (simp add: getCachedSentiment_def select_where_def gm_row_def)

text \<open>
  C3 as stated fails: with observers 1 and 2 registered and observer 1 throwing, observer 2
  is not notified and \<open>analyzeSentiment\<close> throws an \<open>AnalysisError\<close> instead of returning.
\<close>

theorem observer_throw_stops_notification:
  "observers s_obs12 = [1, 2]
   \<and> fst (analyzeSentiment env_obs (js ''gm'') ctx_alice s_obs12)
       = Inl (Sentiment (AnalysisError (js ''Failed to analyze sentiment'')
                (Some (PlainError (js ''observer failed'')))))
   \<and> trace (snd (analyzeSentiment env_obs (js ''gm'') ctx_alice s_obs12))
       = [EmbeddingCall (js ''gm''), StrategyCall (js ''gm''), VectorQuery [0.25] 5,
          CacheWriteScheduled (gm_cache_data ''hash''), Notify 1 fresh_result]
   \<and> Notify 2 fresh_result \<notin> set (trace (snd (analyzeSentiment env_obs (js ''gm'') ctx_alice s_obs12)))"
  unfolding analyze_obs by (simp add: s_obs12_observers)

lemma compute_quiet:
  "analyzeSentiment_compute env_quiet (js ''gm'') ctx_alice s_obs12 =
     (Inr fresh_result,
      s_obs12 \<lparr> trace := [EmbeddingCall (js ''gm''), StrategyCall (js ''gm''), VectorQuery [0.25] 5,
                            CacheWriteScheduled (gm_cache_data ''hash'')] \<rparr>)"
  by (simp add: analyzeSentiment_compute_def and_then_def env_quiet_def
      s_obs12_def s_ready_def s_init_def addObserver_def generateEmbeddingWithRetry_def generateEmbedding_def
      strategy_analyze_def defined_def queryVectorStoreWithRetry_def vectorStore_query_def emit_def
      Let_def trend_nil dominant_nil bullish_half_def fresh_result_def
      gm_cache_data_def ctx_alice_def senderName_or_Unknown_def)

lemma compute_obs:
  "analyzeSentiment_compute env_obs (js ''gm'') ctx_alice s_obs12 =
     (Inr fresh_result,
      s_obs12 \<lparr> trace := [EmbeddingCall (js ''gm''), StrategyCall (js ''gm''), VectorQuery [0.25] 5,
                            CacheWriteScheduled (gm_cache_data ''hash'')] \<rparr>)"
  by (simp add: analyzeSentiment_compute_def and_then_def env_obs_def env_quiet_def
      s_obs12_def s_ready_def s_init_def addObserver_def generateEmbeddingWithRetry_def generateEmbedding_def
      strategy_analyze_def defined_def queryVectorStoreWithRetry_def vectorStore_query_def emit_def
      Let_def trend_nil dominant_nil bullish_half_def fresh_result_def
      gm_cache_data_def ctx_alice_def senderName_or_Unknown_def)

lemma compute_obs_string:
  "analyzeSentiment_compute env_obs_string (js ''gm'') ctx_alice s_obs12 =
     (Inr fresh_result,
      s_obs12 \<lparr> trace := [EmbeddingCall (js ''gm''), StrategyCall (js ''gm''), VectorQuery [0.25] 5,
                            CacheWriteScheduled (gm_cache_data ''hash'')] \<rparr>)"
  by (simp add: analyzeSentiment_compute_def and_then_def env_obs_string_def env_quiet_def
      s_obs12_def s_ready_def s_init_def addObserver_def generateEmbeddingWithRetry_def generateEmbedding_def
      strategy_analyze_def defined_def queryVectorStoreWithRetry_def vectorStore_query_def emit_def
      Let_def trend_nil dominant_nil bullish_half_def fresh_result_def
      gm_cache_data_def ctx_alice_def senderName_or_Unknown_def)

theorem notifyObservers_stops_at_first_throw_witness:
  "analyzeSentiment_compute env_quiet (js ''gm'') ctx_alice s_obs12 =
     (Inr fresh_result,
      s_obs12 \<lparr> trace := [EmbeddingCall (js ''gm''), StrategyCall (js ''gm''), VectorQuery [0.25] 5,
                            CacheWriteScheduled (gm_cache_data ''hash'')] \<rparr>)
   \<and> observers s_obs12 = [1, 2]
   \<and> onSentimentUpdate env_quiet 1 fresh_result = None
   \<and> onSentimentUpdate env_quiet 2 fresh_result = None
   \<and> analyzeSentiment env_quiet (js ''gm'') ctx_alice s_obs12 =
       (Inr fresh_result,
        s_obs12 \<lparr> trace := [EmbeddingCall (js ''gm''), StrategyCall (js ''gm''), VectorQuery [0.25] 5,
                              CacheWriteScheduled (gm_cache_data ''hash''),
                              Notify 1 fresh_result, Notify 2 fresh_result] \<rparr>)
   \<and> analyzeSentiment_compute env_obs (js ''gm'') ctx_alice s_obs12 =
       (Inr fresh_result,
        s_obs12 \<lparr> trace := [EmbeddingCall (js ''gm''), StrategyCall (js ''gm''), VectorQuery [0.25] 5,
                              CacheWriteScheduled (gm_cache_data ''hash'')] \<rparr>)
   \<and> onSentimentUpdate env_obs 1 fresh_result = Some (PlainError (js ''observer failed''))
   \<and> analyzeSentiment env_obs (js ''gm'') ctx_alice s_obs12 =
       (Inl (Sentiment (AnalysisError (js ''Failed to analyze sentiment'')
                          (Some (PlainError (js ''observer failed''))))),
        s_obs12 \<lparr> trace := [EmbeddingCall (js ''gm''), StrategyCall (js ''gm''), VectorQuery [0.25] 5,
                              CacheWriteScheduled (gm_cache_data ''hash''), Notify 1 fresh_result] \<rparr>)
   \<and> distinct (observers s_obs12)
   \<and> Notify 2 fresh_result \<notin> set (map (\<lambda>ob. Notify ob fresh_result) [1])
   \<and> onSentimentUpdate env_obs_string 1 fresh_result = Some (NonError (js ''observer failed''))
   \<and> analyzeSentiment env_obs_string (js ''gm'') ctx_alice s_obs12 =
       (Inl (Sentiment (AnalysisError (js ''Failed to analyze sentiment'') None)),
        s_obs12 \<lparr> trace := [EmbeddingCall (js ''gm''), StrategyCall (js ''gm''), VectorQuery [0.25] 5,
                              CacheWriteScheduled (gm_cache_data ''hash''), Notify 1 fresh_result] \<rparr>)"
proof -
  let ?s1 = "s_obs12 \<lparr> trace := [EmbeddingCall (js ''gm''), StrategyCall (js ''gm''), VectorQuery [0.25] 5,
                            CacheWriteScheduled (gm_cache_data ''hash'')] \<rparr>"
  have o: "observers s_obs12 = [1, 2]" by (rule s_obs12_observers)
  have q: "\<forall>ob \<in> set (observers s_obs12). onSentimentUpdate env_quiet ob fresh_result = None"
    by (simp add: env_quiet_def)
  have a1: "analyzeSentiment env_quiet (js ''gm'') ctx_alice s_obs12
              = (Inr fresh_result,
                 ?s1\<lparr>trace := trace ?s1 @ map (\<lambda>ob. Notify ob fresh_result) (observers s_obs12)\<rparr>)"
    using notifyObservers_stops_at_first_throw[OF compute_quiet] q by blast
  have e2: "onSentimentUpdate env_obs 1 fresh_result = Some (PlainError (js ''observer failed''))"
    by (simp add: env_obs_def)
  have h2: "observers s_obs12 = [] @ 1 # [2] \<and> (\<forall>p \<in> set []. onSentimentUpdate env_obs p fresh_result = None)
              \<and> onSentimentUpdate env_obs 1 fresh_result = Some (PlainError (js ''observer failed''))"
    using o e2 by simp
  have a2: "analyzeSentiment env_obs (js ''gm'') ctx_alice s_obs12
              = (Inl (Sentiment (AnalysisError (js ''Failed to analyze sentiment'')
                                  (cause_of (PlainError (js ''observer failed''))))),
                 ?s1\<lparr>trace := trace ?s1 @ map (\<lambda>ob. Notify ob fresh_result) ([] @ [1])\<rparr>)"
    using notifyObservers_stops_at_first_throw[OF compute_obs] h2 by blast
  have d: "distinct (observers s_obs12)" using o by simp
  have n2: "\<forall>later \<in> set [2]. Notify later fresh_result
              \<notin> set (map (\<lambda>ob. Notify ob fresh_result) ([] @ [1]))"
    using notifyObservers_stops_at_first_throw[OF compute_obs] h2 d by blast
  have e3: "onSentimentUpdate env_obs_string 1 fresh_result = Some (NonError (js ''observer failed''))"
    by (simp add: env_obs_string_def)
  have h3: "observers s_obs12 = [] @ 1 # [2]
              \<and> (\<forall>p \<in> set []. onSentimentUpdate env_obs_string p fresh_result = None)
              \<and> onSentimentUpdate env_obs_string 1 fresh_result = Some (NonError (js ''observer failed''))"
    using o e3 by simp
  have a3: "analyzeSentiment env_obs_string (js ''gm'') ctx_alice s_obs12
              = (Inl (Sentiment (AnalysisError (js ''Failed to analyze sentiment'')
                                  (cause_of (NonError (js ''observer failed''))))),
                 ?s1\<lparr>trace := trace ?s1 @ map (\<lambda>ob. Notify ob fresh_result) ([] @ [1])\<rparr>)"
    using notifyObservers_stops_at_first_throw[OF compute_obs_string] h3 by blast
  show ?thesis
    using compute_quiet compute_obs o a1 a2 a3 e2 e3 d n2
    by (simp add: cause_of_def env_quiet_def)
qed

lemma analyze_cached:
  "analyzeSentiment (env_quiet \<lparr> sha256 := h \<rparr>) (js ''gm'') ctx_alice (s_cached (h (js ''gm''))) =
     (Inr fresh_result,
      s_cached (h (js ''gm''))
        \<lparr> trace := [EmbeddingCall (js ''gm''), StrategyCall (js ''gm''), VectorQuery [0.25] 5,
                     CacheWriteScheduled (gm_cache_data (h (js ''gm'')))] \<rparr>)"
  by (simp add: analyzeSentiment_def analyzeSentiment_try_def analyzeSentiment_compute_def cause_of_def
      and_then_def env_quiet_def
      s_cached_def s_ready_def s_init_def generateEmbeddingWithRetry_def generateEmbedding_def
      strategy_analyze_def defined_def queryVectorStoreWithRetry_def vectorStore_query_def emit_def
      notifyObservers_def Let_def trend_nil dominant_nil bullish_half_def fresh_result_def
      gm_cache_data_def ctx_alice_def senderName_or_Unknown_def)

lemma extends_refl: "extends s s"
  by (simp add: extends_def)

lemma extends_trans: "extends a b \<Longrightarrow> extends b c \<Longrightarrow> extends a c"
  by (auto simp: extends_def)

lemma extends_emit: "extends s (emit e s)"
  by (simp add: extends_def emit_def)

lemma recoveryLoop_extends:
  assumes "\<And>s. extends s (snd (operation s))"
  shows "extends s (snd (recoveryLoop svc now err options operation k s))"
  using assms
proof (induction svc now err options operation k s rule: recoveryLoop.induct)
  case (1 svc now err options operation k s)
  note op1 = "1.prems"(1)
  show ?case
  proof (cases "k \<le> maxAttempts options")
    case False
    then show ?thesis by (subst recoveryLoop.simps) (simp add: extends_refl)
  next
    case True
    let ?s1 = "sleep (backoffMs options * 2 ^ (k - 1)) s"
    obtain out s2 where opeq: "operation ?s1 = (out, s2)" by (cases "operation ?s1")
    have "extends s ?s1" by (simp add: sleep_def extends_emit)
    moreover have "extends ?s1 s2" using op1[of ?s1] opeq by simp
    ultimately have es2: "extends s s2" by (rule extends_trans)
    show ?thesis
    proof (cases out)
      case (Inr v)
      then show ?thesis using True opeq es2
        by (subst recoveryLoop.simps) (simp add: Let_def)
    next
      case (Inl retryError)
      show ?thesis
      proof (cases "k + 1 > maxAttempts options")
        case True
        then show ?thesis using \<open>k \<le> maxAttempts options\<close> opeq Inl es2
          by (subst recoveryLoop.simps) (simp add: Let_def)
      next
        case False
        have "recoveryLoop svc now err options operation k s
            = recoveryLoop svc now err options operation (k + 1) s2"
          using \<open>k \<le> maxAttempts options\<close> opeq Inl False
          by (subst recoveryLoop.simps) (simp add: Let_def)
        moreover have "extends s2 (snd (recoveryLoop svc now err options operation (k + 1) s2))"
          using "1.IH"[OF \<open>k \<le> maxAttempts options\<close> refl refl opeq[symmetric] Inl False op1] .
        ultimately show ?thesis using es2 extends_trans by simp
      qed
    qed
  qed
qed

lemma attemptRecovery_extends:
  assumes "\<And>s. extends s (snd (operation s))"
  shows "extends s (snd (attemptRecovery svc now err operation s))"
  using recoveryLoop_extends[of operation, OF assms]
  by (simp add: attemptRecovery_def Let_def extends_refl split: option.splits)

lemma generateEmbedding_extends: "extends s (snd (generateEmbedding env t s))"
  by (simp add: generateEmbedding_def extends_emit)

lemma vectorStore_query_extends: "extends s (snd (vectorStore_query env v k s))"
  by (simp add: vectorStore_query_def extends_emit)

lemma generateEmbeddingWithRetry_first_event:
  "\<exists>rest. trace (snd (generateEmbeddingWithRetry env t s)) = trace s @ EmbeddingCall t # rest"
proof -
  obtain out s1 where a: "generateEmbedding env t s = (out, s1)"
    by (cases "generateEmbedding env t s")
  have t1: "trace s1 = trace s @ [EmbeddingCall t]"
    using a by (auto simp: generateEmbedding_def emit_def)
  show ?thesis
  proof (cases out)
    case (Inr v)
    then show ?thesis using a t1 by (simp add: generateEmbeddingWithRetry_def)
  next
    case (Inl e)
    obtain r s2 where rec: "attemptRecovery ''SentimentAnalysis'' (clock env)
           (EmbeddingError (js ''Failed to generate embedding for text: '' @ t) (cause_of e))
           (generateEmbedding env t) s1 = (r, s2)"
      by (metis surj_pair)
    have "extends s1 s2"
      using attemptRecovery_extends[of "generateEmbedding env t" s1 "''SentimentAnalysis''" "clock env"
          "EmbeddingError (js ''Failed to generate embedding for text: '' @ t) (cause_of e)"]
        generateEmbedding_extends rec by simp
    then obtain rest where "trace s2 = trace s @ EmbeddingCall t # rest"
      using t1 by (auto simp: extends_def)
    then show ?thesis using a Inl rec by (simp add: generateEmbeddingWithRetry_def)
  qed
qed

lemma queryVectorStoreWithRetry_extends:
  "extends s (snd (queryVectorStoreWithRetry env v k s))"
proof -
  obtain out s1 where a: "vectorStore_query env v k s = (out, s1)"
    by (cases "vectorStore_query env v k s")
  have e1: "extends s s1" using vectorStore_query_extends[of s env v k] a by simp
  show ?thesis
  proof (cases out)
    case (Inr r)
    then show ?thesis using a e1 by (simp add: queryVectorStoreWithRetry_def)
  next
    case (Inl e)
    obtain r s2 where rec: "attemptRecovery ''SentimentAnalysis'' (clock env)
           (VectorStoreError (js ''Failed to query vector store'') (cause_of e))
           (vectorStore_query env v k) s1 = (r, s2)"
      by (metis surj_pair)
    have "extends s1 s2"
      using attemptRecovery_extends[of "vectorStore_query env v k" s1 "''SentimentAnalysis''" "clock env"
          "VectorStoreError (js ''Failed to query vector store'') (cause_of e)"]
        vectorStore_query_extends rec by simp
    then have "extends s s2" using e1 extends_trans by blast
    then show ?thesis using a Inl rec by (simp add: queryVectorStoreWithRetry_def)
  qed
qed

lemma notifyObservers_extends: "extends s (snd (notifyObservers env r s))"
  by (simp add: extends_def notifyObservers_def notifyLoop_trace)

lemma and_then_extends:
  assumes "extends s0 (snd m)" and "\<And>a s. extends s (snd (f a s))"
  shows "extends s0 (snd (and_then m f))"
proof (cases m)
  case (Pair out s1)
  show ?thesis
  proof (cases out)
    case (Inl e)
    then show ?thesis using assms(1) Pair by (simp add: and_then_def)
  next
    case (Inr a)
    have "extends s1 (snd (f a s1))" by (rule assms(2))
    then show ?thesis using assms(1) Pair Inr extends_trans by (auto simp: and_then_def)
  qed
qed

lemma after_embedding_extends:
  "extends s (snd (
     and_then (strategy_analyze env t embedding s) (\<lambda>sentimentScore s.
     and_then (defined embedding, s) (\<lambda>vector s.
     and_then (queryVectorStoreWithRetry env vector 5 s) (\<lambda>similar s.
     and_then (defined similar, s) (\<lambda>similar_matches s.
       (let cacheData =
              \<lparr> cd_messageHash = sha256 env t, cd_embedding = vector,
                cd_sentiment = score sentimentScore, cd_confidence = confidence sentimentScore,
                cd_context = similar_matches, cd_userId = ctx_userId context,
                cd_roomId = ctx_roomId context,
                cd_senderName = senderName_or_Unknown (ctx_senderName context) \<rparr>;
            s1 = emit (CacheWriteScheduled cacheData) s;
            result =
              \<lparr> res_score = sentimentScore,
                res_context =
                  \<lparr> recentTrend = calculateTrend (map m_score similar_matches),
                    volatility = calculateVolatility (map m_score similar_matches),
                    dominantCategory =
                      getDominantCategory similar_matches (category sentimentScore) \<rparr> \<rparr>
        in (Inr result, s1))))))))"
  apply (intro and_then_extends)
      apply (simp add: strategy_analyze_def extends_emit)
     apply (simp add: extends_refl)
    apply (rule queryVectorStoreWithRetry_extends)
   apply (simp add: extends_refl)
  apply (simp add: Let_def extends_emit)
  done

lemma try_extends_compute:
  "extends (snd (analyzeSentiment_compute env t ctx s)) (snd (analyzeSentiment_try env t ctx s))"
  unfolding analyzeSentiment_try_def
  apply (intro and_then_extends)
    apply (rule extends_refl)
   apply (rule notifyObservers_extends)
  apply (simp add: extends_refl)
  done

lemma analyzeSentiment_trace: "snd (analyzeSentiment env t ctx s) = snd (analyzeSentiment_try env t ctx s)"
  by (simp add: analyzeSentiment_def split: prod.splits sum.splits)

lemma analyzeSentiment_generates_embedding:
  "\<exists>rest. trace (snd (analyzeSentiment env t ctx (s\<lparr>initialized := True\<rparr>)))
           = trace s @ EmbeddingCall t # rest"
proof -
  let ?s = "s\<lparr>initialized := True\<rparr>"
  obtain out s1 where g: "generateEmbeddingWithRetry env t ?s = (out, s1)"
    by (cases "generateEmbeddingWithRetry env t ?s")
  obtain rest1 where t1: "trace s1 = trace s @ EmbeddingCall t # rest1"
    using generateEmbeddingWithRetry_first_event[of env t ?s] g by auto
  have "extends s1 (snd (analyzeSentiment_compute env t ctx ?s))"
  proof (cases out)
    case (Inl e)
    then show ?thesis using g
      by (simp add: analyzeSentiment_compute_def and_then_def extends_refl)
  next
    case (Inr embedding)
    then show ?thesis
      using after_embedding_extends[of s1 env t embedding ctx] g
      by (simp add: analyzeSentiment_compute_def and_then_def)
  qed
  then have "extends s1 (snd (analyzeSentiment_try env t ctx ?s))"
    using try_extends_compute extends_trans by blast
  then show ?thesis using t1 by (auto simp: extends_def analyzeSentiment_trace)
qed

lemma datetime_text_example: "datetime_text 2024 2 20 12 0 0 = ''2024-02-20 12:00:00''"
  by (simp add: datetime_text_def pad_def string_of_nat.simps digit_char_def)

text \<open>
  C1. Once the service is initialized, the first thing \<open>analyzeSentiment\<close> does is to
  generate the embedding, for every text and every state, whatever its cache holds. In
  particular: the cache holds an unexpired entry for the text \<open>gm\<close> (sentiment 0.9),
  whatever the hash function; \<open>analyzeSentiment\<close> still generates the embedding, calls the
  strategy and queries the vector store, and returns the fresh result (score 0.5). It never
  reads the cache.
\<close>

theorem analyzeSentiment_ignores_cache_entry:
  "(\<forall>env t ctx s. \<exists>rest.
       trace (snd (analyzeSentiment env t ctx (s\<lparr>initialized := True\<rparr>)))
         = trace s @ EmbeddingCall t # rest)
   \<and> (\<forall>h. getCachedSentiment h (datetime_text 2024 2 20 12 0 0) (js ''gm'')
            (cache (s_cached (h (js ''gm''))))
          = Some \<lparr> ce_messageHash = h (js ''gm''), ce_sentiment = 0.9, ce_confidence = 0.8,
                    ce_context = [], ce_expiresAt = SqlText ''2999-12-31 23:59:59'',
                    ce_userId = ''u2'', ce_roomId = ''r1'' \<rparr>
      \<and> analyzeSentiment (env_quiet \<lparr> sha256 := h \<rparr>) (js ''gm'') ctx_alice (s_cached (h (js ''gm''))) =
          (Inr fresh_result,
           s_cached (h (js ''gm''))
             \<lparr> trace := [EmbeddingCall (js ''gm''), StrategyCall (js ''gm''), VectorQuery [0.25] 5,
                          CacheWriteScheduled (gm_cache_data (h (js ''gm'')))] \<rparr>)
      \<and> score (res_score fresh_result) = 0.5)"
proof (intro conjI allI)
  fix env t ctx s
  show "\<exists>rest. trace (snd (analyzeSentiment env t ctx (s\<lparr>initialized := True\<rparr>)))
         = trace s @ EmbeddingCall t # rest"
    by (rule analyzeSentiment_generates_embedding)
next
  fix h
  show "getCachedSentiment h (datetime_text 2024 2 20 12 0 0) (js ''gm'')
            (cache (s_cached (h (js ''gm''))))
          = Some \<lparr> ce_messageHash = h (js ''gm''), ce_sentiment = 0.9, ce_confidence = 0.8,
                    ce_context = [], ce_expiresAt = SqlText ''2999-12-31 23:59:59'',
                    ce_userId = ''u2'', ce_roomId = ''r1'' \<rparr>"
    using cached_present[of h] by (simp add: s_cached_def datetime_text_example)
  show "analyzeSentiment (env_quiet \<lparr> sha256 := h \<rparr>) (js ''gm'') ctx_alice (s_cached (h (js ''gm''))) =
          (Inr fresh_result,
           s_cached (h (js ''gm''))
             \<lparr> trace := [EmbeddingCall (js ''gm''), StrategyCall (js ''gm''), VectorQuery [0.25] 5,
                          CacheWriteScheduled (gm_cache_data (h (js ''gm'')))] \<rparr>)"
    by (rule analyze_cached)
  show "score (res_score fresh_result) = 0.5"
    by (simp add: fresh_result_def bullish_half_def)
qed

section \<open>Properties of the sentiment cache\<close>

lemma select_where_numeric:
  "row_expiresAt r = SqlNum n \<Longrightarrow> \<not> select_where hash nowText r"
  by (simp add: select_where_def)

text \<open>
  A row written by \<open>cacheSentiment\<close> carries a number in \<open>expiresAt\<close>; the query compares it
  with a text, so the row is never selected, at any time.
\<close>

lemma getCachedSentiment_after_cacheSentiment:
  assumes "cacheSentiment now d [] = Inr rows"
  shows "getCachedSentiment h nowText m rows = None"
proof -
  obtain r where rows: "rows = [r]" and e: "row_expiresAt r = SqlNum (int (now + 24 * 60 * 60 * 1000))"
    using assms by (auto simp: cacheSentiment_def Let_def)
  show ?thesis
    using select_where_numeric[OF e] by (simp add: getCachedSentiment_def rows Let_def)
qed

text \<open>
  C2. An entry for the text \<open>gm\<close> is stored at time 1708430400000 (2024-02-20 12:00:00
  UTC) into an empty table: the row expires at 1708516800000. A retrieval of \<open>gm\<close> returns
  nothing, whatever the hash function and whatever the date and time of the retrieval,
  also immediately after the insert.
\<close>

theorem cached_entry_is_not_retrievable:
  "\<forall>h y mo d hh mi sec.
     cacheSentiment 1708430400000 (gm_cache_data (h (js ''gm''))) []
       = Inr [\<lparr> row_messageHash = h (js ''gm''), row_embedding = [0.25], row_sentiment = 0.5,
                 row_confidence = 0.5, row_context = [], row_userId = ''u1'', row_roomId = ''r1'',
                 row_senderName = ''alice'', row_expiresAt = SqlNum 1708516800000,
                 row_createdAt = SqlNum 1708430400000 \<rparr>]
     \<and> getCachedSentiment h (datetime_text y mo d hh mi sec) (js ''gm'')
          [\<lparr> row_messageHash = h (js ''gm''), row_embedding = [0.25], row_sentiment = 0.5,
             row_confidence = 0.5, row_context = [], row_userId = ''u1'', row_roomId = ''r1'',
             row_senderName = ''alice'', row_expiresAt = SqlNum 1708516800000,
             row_createdAt = SqlNum 1708430400000 \<rparr>] = None"
  by (simp add: cacheSentiment_def gm_cache_data_def getCachedSentiment_def select_where_def Let_def)

section \<open>Properties of the context aggregator\<close>





lemma js_add_NaN_right [simp]: "js_add a NaN = NaN"
  by (cases a) simp_all

lemma js_mul_NaN_right [simp]: "js_mul a NaN = NaN"
  by (cases a) simp_all

lemma js_div_NaN_right [simp]: "js_div a NaN = NaN"
  by (cases a) simp_all

lemma Math_min_NaN_right [simp]: "Math_min a NaN = NaN"
  by (cases a) simp_all

lemma Math_max_NaN_right [simp]: "Math_max a NaN = NaN"
  by (cases a) simp_all
















text \<open>
  NaN is absorbing: a score that is NaN reaches the result of both functions.
\<close>

lemma js_sub_NaN [simp]: "js_sub NaN b = NaN" "js_sub a NaN = NaN"
  by (simp_all add: js_sub_def)








































section \<open>Properties of the scoring engine\<close>



















text \<open>
  The patterns are those of the source file: three rockets (U+1F680, three surrogate
  pairs) match none of them, and the text counts as one word in capitals; the letter
  U+00E9 (e with an acute accent) is in the first character class.
\<close>

lemma rockets_multiplier:
  "calculateEmphasisMultiplier ascii_upper [0xD83D, 0xDE80, 0xD83D, 0xDE80, 0xD83D, 0xDE80] = 1.5"
  by (simp add: calculateEmphasisMultiplier_def Let_def capsWords_def ascii_upper_def)

lemma accented_letter_is_positive: "hasPositiveEmojis (js ''caf'' @ [0xE9])"
  by (simp add: hasPositiveEmojis_def regex_class_test_def js_def)





section \<open>Properties of the message window manager\<close>

lemma getReadyWindows_eq:
  "getReadyWindows now aw =
     (map (\<lambda>p. (snd p)\<lparr>status := Processing\<rparr>) (filter (\<lambda>p. ready_cond now (snd p)) aw),
      map (\<lambda>p. (fst p, if ready_cond now (snd p) then (snd p)\<lparr>status := Processing\<rparr> else snd p)) aw)"
proof (induction aw)
  case Nil
  show ?case by simp
next
  case (Cons a aw)
  obtain wid window where a: "a = (wid, window)" by (cases a)
  show ?case
    unfolding a using Cons.IH
    by (simp add: ready_cond_def MIN_MESSAGES_def MAX_MESSAGES_def Let_def)
qed

lemma map_of_map_val:
  "map_of (map (\<lambda>p. (fst p, f (snd p))) aw) k = map_option f (map_of aw k)"
  by (induction aw) auto

text \<open>
  C7. For a managed window in collecting state, a sweep marks it processing and returns it
  if and only if it holds at least 5 messages, or the clock has reached its \<open>endTime\<close> and
  it holds at least 2 messages. A window holding exactly 1 message is never returned and
  stays as it is, whatever the time.
\<close>

theorem getReadyWindows_ready_iff:
  assumes wf: "wf_windows aw"
    and mem: "(wid, w) \<in> set aw"
    and coll: "status w = Collecting"
    and run: "getReadyWindows now aw = (ready, aw')"
  shows "(wid \<in> windowId ` set ready \<longleftrightarrow>
            (5 \<le> length (messages w) \<or> (endTime w \<le> now \<and> 2 \<le> length (messages w))))
       \<and> (w\<lparr>status := Processing\<rparr> \<in> set ready \<longleftrightarrow>
            (5 \<le> length (messages w) \<or> (endTime w \<le> now \<and> 2 \<le> length (messages w))))
       \<and> map_of aw' wid =
            Some (if 5 \<le> length (messages w) \<or> (endTime w \<le> now \<and> 2 \<le> length (messages w))
                  then w\<lparr>status := Processing\<rparr> else w)
       \<and> (length (messages w) = 1 \<longrightarrow> wid \<notin> windowId ` set ready \<and> map_of aw' wid = Some w)"
proof -
  let ?c = "5 \<le> length (messages w) \<or> (endTime w \<le> now \<and> 2 \<le> length (messages w))"
  have rc: "ready_cond now w \<longleftrightarrow> ?c" using coll by (simp add: ready_cond_def)
  have dist: "distinct (map fst aw)" and ids: "\<And>k v. (k, v) \<in> set aw \<Longrightarrow> windowId v = k"
    using wf by (auto simp: wf_windows_def)
  have ready: "ready = map (\<lambda>p. (snd p)\<lparr>status := Processing\<rparr>) (filter (\<lambda>p. ready_cond now (snd p)) aw)"
    using getReadyWindows_eq[of now aw] run by simp
  have aw': "aw' = map (\<lambda>p. (fst p, if ready_cond now (snd p) then (snd p)\<lparr>status := Processing\<rparr> else snd p)) aw"
    using getReadyWindows_eq[of now aw] run by simp
  have lookup: "map_of aw wid = Some w" using dist mem by simp
  have a: "wid \<in> windowId ` set ready \<longleftrightarrow> ?c"
  proof
    assume "wid \<in> windowId ` set ready"
    then obtain k v where kv: "(k, v) \<in> set aw" "ready_cond now v" "windowId v = wid"
      by (auto simp: ready)
    then have "k = wid" using ids by auto
    then have "v = w" using kv(1) lookup dist by (metis map_of_is_SomeI option.inject)
    then show ?c using kv(2) rc by simp
  next
    assume ?c
    then have "ready_cond now w" using rc by simp
    then have "w\<lparr>status := Processing\<rparr> \<in> set ready" using mem by (force simp: ready)
    moreover have "windowId (w\<lparr>status := Processing\<rparr>) = wid" using ids[OF mem] by simp
    ultimately show "wid \<in> windowId ` set ready" by (metis imageI)
  qed
  have b: "w\<lparr>status := Processing\<rparr> \<in> set ready \<longleftrightarrow> ?c"
  proof
    assume "w\<lparr>status := Processing\<rparr> \<in> set ready"
    then have "windowId (w\<lparr>status := Processing\<rparr>) \<in> windowId ` set ready" by (rule imageI)
    then have "wid \<in> windowId ` set ready" using ids[OF mem] by simp
    then show ?c using a by simp
  next
    assume ?c
    then have "ready_cond now w" using rc by simp
    then show "w\<lparr>status := Processing\<rparr> \<in> set ready" using mem by (force simp: ready)
  qed
  have c: "map_of aw' wid = Some (if ?c then w\<lparr>status := Processing\<rparr> else w)"
    using map_of_map_val[of "\<lambda>v. if ready_cond now v then v\<lparr>status := Processing\<rparr> else v" aw wid]
      lookup rc by (simp add: aw')
  show ?thesis using a b c by auto
qed

theorem getReadyWindows_ready_iff_witness:
  "wf_windows [(''c_0'', two_msg_window)]
   \<and> (''c_0'', two_msg_window) \<in> set [(''c_0'', two_msg_window)]
   \<and> status two_msg_window = Collecting
   \<and> getReadyWindows 30000 [(''c_0'', two_msg_window)] =
        ([two_msg_window\<lparr>status := Processing\<rparr>], [(''c_0'', two_msg_window\<lparr>status := Processing\<rparr>)])
   \<and> ''c_0'' \<in> windowId ` set [two_msg_window\<lparr>status := Processing\<rparr>]
   \<and> map_of [(''c_0'', two_msg_window\<lparr>status := Processing\<rparr>)] ''c_0'' =
        Some (two_msg_window\<lparr>status := Processing\<rparr>)"
proof -
  have h1: "wf_windows [(''c_0'', two_msg_window)]"
    by (simp add: wf_windows_def two_msg_window_def)
  have h2: "(''c_0'', two_msg_window) \<in> set [(''c_0'', two_msg_window)]" by simp
  have h3: "status two_msg_window = Collecting" by (simp add: two_msg_window_def)
  have h4: "getReadyWindows 30000 [(''c_0'', two_msg_window)] =
        ([two_msg_window\<lparr>status := Processing\<rparr>], [(''c_0'', two_msg_window\<lparr>status := Processing\<rparr>)])"
    by (simp add: two_msg_window_def MIN_MESSAGES_def MAX_MESSAGES_def)
  have len: "length (messages two_msg_window) = 2" "endTime two_msg_window = 30000"
    by (simp_all add: two_msg_window_def)
  show ?thesis
    using getReadyWindows_ready_iff[OF h1 h2 h3 h4] h1 h3 h4 len by simp
qed

lemma string_of_nat_0: "string_of_nat 0 = ''0''"
  by (simp add: string_of_nat.simps digit_char_def)

lemma getWindowId_c_0: "getWindowId ''c'' 0 = ''c_0''"
  by (simp add: getWindowId_def string_of_nat_0)

lemma getWindowId_c_1000: "getWindowId ''c'' 1000 = ''c_0''"
  by (simp add: getWindowId_def string_of_nat_0 WINDOW_SIZE_MS_def)

lemma getWindowId_c_2000: "getWindowId ''c'' 2000 = ''c_0''"
  by (simp add: getWindowId_def string_of_nat_0 WINDOW_SIZE_MS_def)

text \<open>
  The overflow branch in general: when the bucket's window is no longer collecting, the
  message goes to a fresh collecting window named \<open>windowId_overflow\<close> that holds only this
  message, and the bucket's own window is untouched.
\<close>

lemma addMessage_overflow:
  assumes "map_of aw (getWindowId (in_chatId m) now) = Some w" and "status w \<noteq> Collecting"
  shows "fst (addMessage now m aw) =
           \<lparr> windowId = getWindowId (in_chatId m) now @ ''_overflow'', startTime = now,
             endTime = now + WINDOW_SIZE_MS, chatId = in_chatId m,
             messages = [entry_of m now], status = Collecting \<rparr>"
    and "snd (addMessage now m aw) =
           map_set aw (getWindowId (in_chatId m) now @ ''_overflow'') (fst (addMessage now m aw))"
  using assms by (simp_all add: addMessage_def Let_def)

lemma map_of_map_set: "map_of (map_set aw k v) = (map_of aw)(k \<mapsto> v)"
  by (induction aw) (auto simp: fun_eq_iff)

lemma keys_map_set:
  "map fst (map_set aw k v) = (if k \<in> fst ` set aw then map fst aw else map fst aw @ [k])"
  by (induction aw) force+

lemma set_map_set: "set (map_set aw k v) \<subseteq> insert (k, v) (set aw)"
  by (induction aw) (auto split: if_splits)

lemma wf_map_set:
  assumes "wf_windows aw" and "windowId v = k"
  shows "wf_windows (map_set aw k v)"
proof -
  have "distinct (map fst (map_set aw k v))"
    using assms(1) by (auto simp: keys_map_set wf_windows_def)
  moreover have "\<forall>(wid, w) \<in> set (map_set aw k v). windowId w = wid"
    using assms set_map_set[of aw k v] by (auto simp: wf_windows_def)
  ultimately show ?thesis by (simp add: wf_windows_def)
qed

lemma wf_empty: "wf_windows []"
  by (simp add: wf_windows_def)

lemma map_of_wf: "wf_windows aw \<Longrightarrow> map_of aw k = Some w \<Longrightarrow> windowId w = k"
  by (auto simp: wf_windows_def dest: map_of_SomeD)

text \<open>Every operation of the manager keeps the map well formed.\<close>

lemma wf_addMessage: "wf_windows aw \<Longrightarrow> wf_windows (snd (addMessage now m aw))"
  by (auto simp: addMessage_def Let_def map_of_wf intro!: wf_map_set split: option.splits)

lemma wf_getReadyWindows: "wf_windows aw \<Longrightarrow> wf_windows (snd (getReadyWindows now aw))"
  by (auto simp: getReadyWindows_eq wf_windows_def comp_def)

lemma wf_markWindowComplete: "wf_windows aw \<Longrightarrow> wf_windows (markWindowComplete wid aw)"
  by (auto simp: markWindowComplete_def map_of_wf intro!: wf_map_set split: option.splits)

lemma wf_cleanup: "wf_windows aw \<Longrightarrow> wf_windows (cleanup_windows now aw)"
  by (auto simp: cleanup_windows_def wf_windows_def distinct_map_filter)

text \<open>
  In general: two messages that overflow the same bucket leave an overflow window that
  holds only the second.
\<close>

lemma addMessage_overflow_twice:
  assumes w: "map_of aw wid = Some w" and st: "status w \<noteq> Collecting"
    and k1: "getWindowId (in_chatId m1) t1 = wid" and k2: "getWindowId (in_chatId m2) t2 = wid"
  shows "map_of (snd (addMessage t2 m2 (snd (addMessage t1 m1 aw)))) (wid @ ''_overflow'')
       = Some \<lparr> windowId = wid @ ''_overflow'', startTime = t2, endTime = t2 + WINDOW_SIZE_MS,
                chatId = in_chatId m2, messages = [entry_of m2 t2], status = Collecting \<rparr>"
proof -
  let ?aw1 = "snd (addMessage t1 m1 aw)"
  have ne: "wid \<noteq> wid @ ''_overflow''" by simp
  have aw1: "?aw1 = map_set aw (wid @ ''_overflow'') (fst (addMessage t1 m1 aw))"
    using addMessage_overflow(2)[of aw m1 t1 w] w st k1 by simp
  have w1: "map_of ?aw1 wid = Some w"
    unfolding aw1 using w ne by (simp add: map_of_map_set)
  have "snd (addMessage t2 m2 ?aw1) =
          map_set ?aw1 (wid @ ''_overflow'') (fst (addMessage t2 m2 ?aw1))"
    using addMessage_overflow(2)[of ?aw1 m2 t2 w] w1 st k2 by simp
  moreover have "fst (addMessage t2 m2 ?aw1) =
       \<lparr> windowId = wid @ ''_overflow'', startTime = t2, endTime = t2 + WINDOW_SIZE_MS,
         chatId = in_chatId m2, messages = [entry_of m2 t2], status = Collecting \<rparr>"
    using addMessage_overflow(1)[of ?aw1 m2 t2 w] w1 st k2 by simp
  ultimately show ?thesis by (simp add: map_of_map_set)
qed

text \<open>
  C4. The overflow window is stored under the one key \<open>windowId_overflow\<close>, so a second
  message that overflows the same bucket replaces the window holding the first. After the
  bucket \<open>c_0\<close> went to processing, message A (time 1000) is put in \<open>c_0_overflow\<close>; message B
  (time 2000) then replaces that window, and A is in no managed window any more.
\<close>

theorem addMessage_second_overflow_drops_first:
  "window_summary full_bucket = [(''c_0'', Processing, [''m1'', ''m2'', ''m3'', ''m4'', ''m5''])]
   \<and> window_summary (snd (addMessage 1000 (mk_input ''A'') full_bucket)) =
       [(''c_0'', Processing, [''m1'', ''m2'', ''m3'', ''m4'', ''m5'']),
        (''c_0_overflow'', Collecting, [''A''])]
   \<and> window_summary (snd (addMessage 2000 (mk_input ''B'')
         (snd (addMessage 1000 (mk_input ''A'') full_bucket)))) =
       [(''c_0'', Processing, [''m1'', ''m2'', ''m3'', ''m4'', ''m5'']),
        (''c_0_overflow'', Collecting, [''B''])]
   \<and> ''A'' \<notin> managed_texts (snd (addMessage 2000 (mk_input ''B'')
         (snd (addMessage 1000 (mk_input ''A'') full_bucket))))"
  by (simp add: window_summary_def managed_texts_def full_bucket_def addMessage_def mk_input_def
      entry_of_def getWindowId_c_0 getWindowId_c_1000 getWindowId_c_2000 Let_def
      MIN_MESSAGES_def MAX_MESSAGES_def)

end
